theory Spec2Isabelle
  imports Complex_Main "HOL-Library.Sublist" "HOL-Library.Multiset" "HOL-Library.Log_Nat"
begin

section \<open>Python string operations used by the analyser\<close>

text \<open>
  The script \<^verbatim>\<open>carbon_footprint_check.py\<close> uses three string operations of Python:
  \<^verbatim>\<open>s.split(".")\<close>, \<^verbatim>\<open>s.endswith(t)\<close> and the substring test \<^verbatim>\<open>t in s\<close>.
  Strings are character lists. Slicing \<^verbatim>\<open>s[1:]\<close> never raises in Python and is
  \<open>drop 1\<close>; indexing \<^verbatim>\<open>xs[0]\<close> raises \<^verbatim>\<open>IndexError\<close> on an empty list and is
  modelled with an explicit failure.
\<close>

fun py_split :: "char \<Rightarrow> string \<Rightarrow> string list" where
  "py_split sep [] = [[]]"
| "py_split sep (c # cs) =
     (if c = sep then [] # py_split sep cs
      else (case py_split sep cs of
              [] \<Rightarrow> [[c]]
            | w # ws \<Rightarrow> (c # w) # ws))"

definition py_endswith :: "string \<Rightarrow> string \<Rightarrow> bool" where
  "py_endswith s t =
     (length t \<le> length s \<and> drop (length s - length t) s = t)"

fun py_startswith :: "string \<Rightarrow> string \<Rightarrow> bool" where
  "py_startswith s [] = True"
| "py_startswith [] (d # ds) = False"
| "py_startswith (c # cs) (d # ds) = (c = d \<and> py_startswith cs ds)"

fun py_in :: "string \<Rightarrow> string \<Rightarrow> bool" where
  "py_in t [] = (t = [])"
| "py_in t (c # cs) = (py_startswith (c # cs) t \<or> py_in t cs)"

definition index0 :: "'a list \<Rightarrow> 'a option" where
  "index0 xs = (case xs of [] \<Rightarrow> None | x # _ \<Rightarrow> Some x)"

section \<open>Architecture classification\<close>

text \<open>
  Lines 129 and 130 of \<^verbatim>\<open>check_ec2_utilization\<close>:
  \<^verbatim>\<open>family = instance_type.split(".")[0]\<close> and
  \<^verbatim>\<open>is_graviton = family.endswith("g") or "g" in family[1:]\<close>.
  \<open>family_of\<close> is \<open>None\<close> where the indexing would raise.
\<close>

definition family_of :: "string \<Rightarrow> string option" where
  "family_of instance_type = index0 (py_split (CHR ''.'') instance_type)"

definition is_graviton :: "string \<Rightarrow> bool" where
  "is_graviton family = (py_endswith family ''g'' \<or> py_in ''g'' (drop 1 family))"

section \<open>Python floats\<close>

text \<open>
  A Python float is an IEEE 754 double. A finite double is a rational number, so the
  floats of the script are values of type \<open>rat\<close>, and each arithmetic operation
  is the exact operation followed by rounding to the nearest number with a 53-bit
  significand, ties to the even significand. The exponent is not bounded here: overflow
  to infinity, subnormal numbers and NaN, which arise only for magnitudes beyond about
  1.8e308 or below about 2.2e-308, are not modelled. Comparisons of floats are exact. The script divides only behind a guard that excludes a zero
  divisor (lines 152, 194, 255 and 257), so \<^verbatim>\<open>ZeroDivisionError\<close> cannot occur.
\<close>

definition ilog2 :: "rat \<Rightarrow> int" where
  "ilog2 x =
     (let k = bitlen (fst (quotient_of x)) - bitlen (snd (quotient_of x))
      in if 2 powi k \<le> x then k else k - 1)"

definition round_even :: "rat \<Rightarrow> int" where
  "round_even y =
     (let f = \<lfloor>y\<rfloor>; d = y - of_int f
      in if d < 1 / 2 then f else if 1 / 2 < d then f + 1 else if even f then f else f + 1)"

definition rnd :: "rat \<Rightarrow> rat" where
  "rnd x =
     (if x = 0 then 0
      else (let e = ilog2 \<bar>x\<bar> - 52
            in sgn x * of_int (round_even (\<bar>x\<bar> / 2 powi e)) * 2 powi e))"

definition fadd :: "rat \<Rightarrow> rat \<Rightarrow> rat" where
  "fadd a b = rnd (a + b)"

definition fmul :: "rat \<Rightarrow> rat \<Rightarrow> rat" where
  "fmul a b = rnd (a * b)"

definition fdiv :: "rat \<Rightarrow> rat \<Rightarrow> rat" where
  "fdiv a b = rnd (a / b)"

text \<open>
  \<^verbatim>\<open>float(s)\<close> on a decimal string, a float literal of the source, and the
  conversion of an integer operand: the nearest double.
\<close>

definition py_float :: "rat \<Rightarrow> rat" where
  "py_float d = rnd d"

text \<open>The builtin \<^verbatim>\<open>sum\<close>, and an accumulation with \<^verbatim>\<open>+=\<close> from zero: left to right.\<close>

definition py_sum :: "rat list \<Rightarrow> rat" where
  "py_sum xs = foldl fadd 0 xs"

text \<open>\<^verbatim>\<open>int(x)\<close> on a float truncates towards zero.\<close>

definition py_int :: "rat \<Rightarrow> int" where
  "py_int x = (if x \<ge> 0 then \<lfloor>x\<rfloor> else \<lceil>x\<rceil>)"

section \<open>Exceptions, outcomes and printed lines\<close>

text \<open>
  The script imports three exception classes of botocore: \<^verbatim>\<open>ClientError\<close> (with the
  error code and message of its response), \<^verbatim>\<open>NoCredentialsError\<close> and
  \<^verbatim>\<open>ProfileNotFound\<close>. \<open>OtherException\<close> stands for an exception of any other
  class, named by its class, for example \<^verbatim>\<open>NoRegionError\<close> or
  \<^verbatim>\<open>EndpointConnectionError\<close>.
\<close>

datatype exn =
    ClientError string string
  | NoCredentialsError
  | ProfileNotFound string
  | OtherException string

text \<open>
  A computation prints lines and then returns a value, raises an exception that nothing
  caught, or leaves through \<^verbatim>\<open>sys.exit(n)\<close>.
\<close>

datatype 'a outcome = Return 'a | Raise exn | SysExit int

datatype arch = ARM_Graviton | X86

datatype service_kind = EC2 | RDS | S3 | Lambda | DynamoDB

datatype label =
    OverProvisionedLabel
  | UnderProvisionedLabel
  | OptimizedLabel
  | NotOptimizedLabel
  | Verbatim string

datatype category = Compute | Storage | Database | Network | Monitoring

text \<open>
  One constructor for each \<^verbatim>\<open>print\<close> of the script; the interpolated values are the
  arguments. The fixed texts are Korean sentences and are named here by what they say.
\<close>

datatype line =
    Blank
  | Rule
  | SectionTitle nat
  | HeaderLine nat
  | FooterLine nat
  | HelpText
  | Boto3Missing
  | Boto3InstallHint
  | AuthAccount string
  | AuthArn string
  | AuthRegion "string option"
  | ErrNoCredentials
  | RemedyHeader
  | Remedy nat
  | ErrProfileNotFound string
  | HintListProfiles
  | NoRunningInstances
  | ServerlessPraise
  | RunningCount int
  | PermissionNotice
  | MetricFailureNotice string
  | InstanceLine string string arch
  | NameLine "string option"
  | CpuLine "rat option"
  | LowCpuWarning
  | SummaryHeader
  | GravitonCountLine int
  | X86CountLine int
  | GravitonRatioLine real
  | SuggestGraviton
  | LowUtilCountLine int
  | LowUtilHint
  | Ec2QueryFailed string
  | NoCostIncurred
  | TotalCostLine rat
  | CostRow rat rat int string
  | SuggestionHeader
  | Suggestion service_kind
  | CostQueryFailed string
  | CostExplorerNote
  | CostSkipped
  | OptimizerNoData
  | OptimizerNotEnabled
  | OptInHowTo
  | ResourceTypeLine string
  | FindingLine label real
  | OptimizerQueryFailed string
  | ChecklistCategory category
  | ChecklistItem category nat
  | FootprintToolHeader
  | FootprintToolHint nat

type_synonym 'a run = "line list \<times> 'a outcome"

definition emit :: "line list \<Rightarrow> unit run" where
  "emit ls = (ls, Return ())"

definition prepend :: "line list \<Rightarrow> 'a run \<Rightarrow> 'a run" where
  "prepend ls r = (ls @ fst r, snd r)"

text \<open>Sequencing: the rest runs only when the first part returned.\<close>

definition run_bind :: "'a run \<Rightarrow> ('a \<Rightarrow> 'b run) \<Rightarrow> 'b run" where
  "run_bind r f =
     (case snd r of
        Return v \<Rightarrow> prepend (fst r) (f v)
      | Raise e \<Rightarrow> (fst r, Raise e)
      | SysExit n \<Rightarrow> (fst r, SysExit n))"

text \<open>
  \<^verbatim>\<open>try: ... except ClientError as e: ...\<close>: the handler runs for a \<open>ClientError\<close>
  only; every other exception, and \<^verbatim>\<open>SystemExit\<close>, passes through.
\<close>

definition catch_client_error :: "'a run \<Rightarrow> (string \<Rightarrow> string \<Rightarrow> 'a run) \<Rightarrow> 'a run" where
  "catch_client_error r h =
     (case snd r of
        Return v \<Rightarrow> r
      | Raise e \<Rightarrow>
          (case e of
             ClientError code msg \<Rightarrow> prepend (fst r) (h code msg)
           | NoCredentialsError \<Rightarrow> r
           | ProfileNotFound m \<Rightarrow> r
           | OtherException c \<Rightarrow> r)
      | SysExit n \<Rightarrow> r)"

text \<open>The answer of a client call: the value returned or the exception raised.\<close>

definition call :: "exn + 'a \<Rightarrow> 'a run" where
  "call r = (case r of Inl e \<Rightarrow> ([], Raise e) | Inr v \<Rightarrow> ([], Return v))"

text \<open>
  The exit status of the process: 0 after a normal return, the argument of
  \<^verbatim>\<open>sys.exit\<close>, and 1 when an exception reaches the top level.
\<close>

fun exit_status :: "'a outcome \<Rightarrow> int" where
  "exit_status (Return v) = 0"
| "exit_status (Raise e) = 1"
| "exit_status (SysExit n) = n"

section \<open>The data returned by the cloud queries\<close>

record ec2_tag =
  Key :: string
  Value :: string

record ec2_instance =
  InstanceId :: string
  InstanceType :: string
  Tags :: "ec2_tag list"

record reservation =
  Instances :: "ec2_instance list"

record datapoint =
  Average :: rat

text \<open>
  A cost group: \<open>Key0\<close> is \<^verbatim>\<open>group["Keys"][0]\<close> (the query groups by one dimension)
  and \<open>Amount\<close> is the decimal number that the amount string of the answer writes;
  the script reads it with \<^verbatim>\<open>float(...)\<close>.
\<close>

record cost_group =
  Key0 :: string
  Amount :: rat

record result_by_time =
  Groups :: "cost_group list"

text \<open>The keys read with \<^verbatim>\<open>.get(key, default)\<close> may be absent.\<close>

record finding =
  finding_name :: "string option"
  finding_value :: "real option"

record recommendation_summary =
  recommendationResourceType :: "string option"
  summaries :: "finding list"

record identity =
  Account :: string
  Arn :: string
  region_name :: "string option"

text \<open>
  The cloud account as the script sees it: what each client call answers.
  \<open>open_session\<close> is \<^verbatim>\<open>boto3.Session(**session_kwargs)\<close> followed by
  \<^verbatim>\<open>session.client("sts")\<close> and \<^verbatim>\<open>sts.get_caller_identity()\<close>; the metric query is
  asked per instance identifier.

  Each of the three phase queries stands for the construction of the clients of its
  phase followed by the call: \<open>describe_instances\<close> for lines 93 to 100,
  \<open>get_cost_and_usage\<close> for lines 221 to 232 and \<open>get_recommendation_summaries\<close>
  for lines 293 to 295. The construction of a client sends no request, so it raises no
  \<open>ClientError\<close>; what it can raise (\<^verbatim>\<open>NoRegionError\<close> when the session has
  credentials and no region) is an \<open>OtherException\<close>, and such an exception leaves
  the phase in the same way, after the same printed lines, whether it is raised before
  the \<^verbatim>\<open>try\<close> (lines 93, 94 and 221) or inside it.
\<close>

record aws =
  open_session :: "string option \<Rightarrow> string option \<Rightarrow> exn + identity"
  describe_instances :: "exn + reservation list"
  get_metric_statistics :: "string \<Rightarrow> exn + datapoint list"
  get_cost_and_usage :: "exn + result_by_time list"
  get_recommendation_summaries :: "exn + recommendation_summary list"

record args =
  profile :: "string option"
  region :: "string option"
  skip_cost :: bool

text \<open>
  What \<^verbatim>\<open>parser.parse_args()\<close> (line 432) does with the command line: it returns
  the arguments, or prints the help text and leaves with status 0 (\<^verbatim>\<open>--help\<close>), or
  writes a usage message to the error stream and leaves with status 2.
\<close>

datatype parse_result = Parsed args | HelpRequested | UsageError

section \<open>Session acquisition\<close>

text \<open>
  \<^verbatim>\<open>create_session\<close>: an argument enters \<^verbatim>\<open>session_kwargs\<close> only when it is truthy
  (\<^verbatim>\<open>if profile:\<close>), so an empty string counts as absent. The two handlers print their
  remedies and call \<^verbatim>\<open>sys.exit(1)\<close>; an exception of another class is not handled here.
\<close>

definition truthy :: "string option \<Rightarrow> string option" where
  "truthy a = (case a of None \<Rightarrow> None | Some s \<Rightarrow> (if s = [] then None else Some s))"

definition create_session :: "aws \<Rightarrow> string option \<Rightarrow> string option \<Rightarrow> identity run" where
  "create_session env prof reg =
     (case open_session env (truthy prof) (truthy reg) of
        Inr ident \<Rightarrow>
          ([AuthAccount (Account ident), AuthArn (Arn ident),
            AuthRegion (region_name ident), Blank], Return ident)
      | Inl e \<Rightarrow>
          (case e of
             NoCredentialsError \<Rightarrow>
               ([ErrNoCredentials, RemedyHeader, Remedy 1, Remedy 2, Remedy 3], SysExit 1)
           | ProfileNotFound m \<Rightarrow>
               ([ErrProfileNotFound m, HintListProfiles], SysExit 1)
           | ClientError code msg \<Rightarrow> ([], Raise e)
           | OtherException c \<Rightarrow> ([], Raise e)))"

section \<open>Phase 1: instance utilization\<close>

record low_entry =
  low_id :: string
  low_type :: string
  low_name :: string
  low_avg_cpu :: rat

record loop_state =
  low_utilization :: "low_entry list"
  graviton_count :: int
  x86_count :: int

text \<open>
  Lines 151 to 155: the mean of the daily averages, computed in floats, or \<^verbatim>\<open>None\<close>.
  The length is an integer and is converted for the division.
\<close>

definition avg_cpu_of :: "datapoint list \<Rightarrow> rat option" where
  "avg_cpu_of datapoints =
     (if datapoints \<noteq> []
      then Some (fdiv (py_sum (map Average datapoints)) (py_float (of_nat (length datapoints))))
      else None)"

text \<open>Lines 138 to 163: the metric query inside its own \<^verbatim>\<open>try\<close>.\<close>

definition query_avg_cpu :: "aws \<Rightarrow> string \<Rightarrow> rat option run" where
  "query_avg_cpu env instance_id =
     catch_client_error
       (run_bind (call (get_metric_statistics env instance_id))
          (\<lambda>datapoints. ([], Return (avg_cpu_of datapoints))))
       (\<lambda>error_code msg.
          ([if error_code \<in> set [''AccessDeniedException'', ''AccessDenied'']
            then PermissionNotice else MetricFailureNotice error_code],
           Return None))"

text \<open>Lines 166 to 170: the value of the first tag whose key is \<^verbatim>\<open>Name\<close>.\<close>

fun name_tag_of :: "ec2_tag list \<Rightarrow> string" where
  "name_tag_of [] = []"
| "name_tag_of (t # ts) = (if Key t = ''Name'' then Value t else name_tag_of ts)"

definition is_low :: "rat option \<Rightarrow> bool" where
  "is_low avg_cpu = (case avg_cpu of None \<Rightarrow> False | Some a \<Rightarrow> a < 5)"

text \<open>Lines 124 to 188: the body of the loop over the instances.\<close>

definition process_instance :: "aws \<Rightarrow> ec2_instance \<Rightarrow> loop_state \<Rightarrow> loop_state run" where
  "process_instance env inst st =
     (case family_of (InstanceType inst) of
        None \<Rightarrow> ([], Raise (OtherException ''IndexError''))
      | Some family \<Rightarrow>
          (let g = is_graviton family;
               st1 = (if g then st\<lparr>graviton_count := graviton_count st + 1\<rparr>
                      else st\<lparr>x86_count := x86_count st + 1\<rparr>)
           in run_bind (query_avg_cpu env (InstanceId inst))
                (\<lambda>avg_cpu.
                   (let name_tag = name_tag_of (Tags inst);
                        arch_label = (if g then ARM_Graviton else X86)
                    in ([InstanceLine (InstanceId inst) (InstanceType inst) arch_label,
                         NameLine (if name_tag = [] then None else Some name_tag),
                         CpuLine avg_cpu]
                        @ (if is_low avg_cpu then [LowCpuWarning] else [])
                        @ [Blank],
                        Return
                          (if is_low avg_cpu
                           then st1\<lparr>low_utilization := low_utilization st1 @
                                  [\<lparr>low_id = InstanceId inst, low_type = InstanceType inst,
                                    low_name = name_tag, low_avg_cpu = the avg_cpu\<rparr>]\<rparr>
                           else st1))))))"

fun process_instances :: "aws \<Rightarrow> ec2_instance list \<Rightarrow> loop_state \<Rightarrow> loop_state run" where
  "process_instances env [] st = ([], Return st)"
| "process_instances env (i # rest) st =
     run_bind (process_instance env i st) (\<lambda>st'. process_instances env rest st')"

text \<open>
  Lines 191 to 202: the summary after the loop. The ratio of the two counters is kept as
  an exact real number.
\<close>

definition graviton_ratio :: "int \<Rightarrow> int \<Rightarrow> real" where
  "graviton_ratio g x = real_of_int g / real_of_int (g + x) * 100"

definition summary_lines :: "loop_state \<Rightarrow> line list" where
  "summary_lines st =
     [SummaryHeader, GravitonCountLine (graviton_count st), X86CountLine (x86_count st)]
     @ (if graviton_count st + x86_count st > 0
        then [GravitonRatioLine (graviton_ratio (graviton_count st) (x86_count st))]
             @ (if graviton_ratio (graviton_count st) (x86_count st) < 50
                then [SuggestGraviton] else [])
        else [])
     @ (if low_utilization st \<noteq> []
        then [LowUtilCountLine (int (length (low_utilization st))), LowUtilHint] else [])
     @ [Blank]"

definition initial_state :: loop_state where
  "initial_state = \<lparr>low_utilization = [], graviton_count = 0, x86_count = 0\<rparr>"

definition check_ec2_utilization :: "aws \<Rightarrow> unit run" where
  "check_ec2_utilization env =
     prepend [Rule, SectionTitle 1, Rule]
       (catch_client_error
          (run_bind (call (describe_instances env))
             (\<lambda>response.
                (let instances = concat (map Instances response)
                 in if instances = []
                    then ([NoRunningInstances, ServerlessPraise, Blank], Return ())
                    else prepend [RunningCount (int (length instances))]
                           (run_bind (process_instances env instances initial_state)
                              (\<lambda>st. (summary_lines st, Return ()))))))
          (\<lambda>code msg. ([Ec2QueryFailed msg, Blank], Return ())))"

section \<open>Phase 2: cost by service\<close>

text \<open>
  Lines 234 to 243: the two nested loops read each amount with \<^verbatim>\<open>float\<close>, keep the
  groups whose cost exceeds the float \<^verbatim>\<open>0.01\<close>, in query order, and add their costs
  up in floats.
\<close>

fun collect_groups ::
  "cost_group list \<Rightarrow> (string \<times> rat) list \<times> rat \<Rightarrow> (string \<times> rat) list \<times> rat" where
  "collect_groups [] acc = acc"
| "collect_groups (g # gs) (services, total_cost) =
     (if py_float (Amount g) > py_float (1 / 100)
      then collect_groups gs
             (services @ [(Key0 g, py_float (Amount g))], fadd total_cost (py_float (Amount g)))
      else collect_groups gs (services, total_cost))"

fun collect_results ::
  "result_by_time list \<Rightarrow> (string \<times> rat) list \<times> rat \<Rightarrow> (string \<times> rat) list \<times> rat" where
  "collect_results [] acc = acc"
| "collect_results (r # rs) acc = collect_results rs (collect_groups (Groups r) acc)"

text \<open>
  Line 251, \<^verbatim>\<open>services.sort(key=lambda x: x[1], reverse=True)\<close>: Python's sort is
  stable, also with \<^verbatim>\<open>reverse=True\<close>; it is the stable insertion sort on the negated
  cost.
\<close>

definition sort_services :: "(string \<times> rat) list \<Rightarrow> (string \<times> rat) list" where
  "sort_services services = sort_key (\<lambda>x. - snd x) services"

text \<open>Lines 255 and 257, with their guards.\<close>

definition bar_length :: "rat \<Rightarrow> rat \<Rightarrow> int" where
  "bar_length total_cost cost =
     (if total_cost > 0 then py_int (fmul (fdiv cost total_cost) 30) else 0)"

definition percentage :: "rat \<Rightarrow> rat \<Rightarrow> rat" where
  "percentage total_cost cost =
     (if total_cost > 0 then fmul (fdiv cost total_cost) 100 else 0)"

definition cost_row :: "rat \<Rightarrow> string \<times> rat \<Rightarrow> line" where
  "cost_row total_cost entry =
     CostRow (snd entry) (percentage total_cost (snd entry))
       (bar_length total_cost (snd entry)) (fst entry)"

text \<open>Lines 263 to 272: the \<^verbatim>\<open>if\<close>/\<^verbatim>\<open>elif\<close> chain, at most one line for a service.\<close>

definition suggestion_for :: "string \<Rightarrow> line option" where
  "suggestion_for service_name =
     (if py_in ''EC2'' service_name then Some (Suggestion EC2)
      else if py_in ''RDS'' service_name then Some (Suggestion RDS)
      else if py_in ''S3'' service_name then Some (Suggestion S3)
      else if py_in ''Lambda'' service_name then Some (Suggestion Lambda)
      else if py_in ''DynamoDB'' service_name then Some (Suggestion DynamoDB)
      else None)"

fun suggestion_lines :: "(string \<times> rat) list \<Rightarrow> line list" where
  "suggestion_lines [] = []"
| "suggestion_lines (entry # rest) =
     (case suggestion_for (fst entry) of
        None \<Rightarrow> suggestion_lines rest
      | Some l \<Rightarrow> l # suggestion_lines rest)"

definition cost_report :: "result_by_time list \<Rightarrow> unit run" where
  "cost_report response =
     (let collected = collect_results response ([], 0);
          services = fst collected;
          total_cost = snd collected
      in if services = []
         then ([NoCostIncurred, Blank], Return ())
         else (let sorted = sort_services services
               in ([TotalCostLine total_cost]
                   @ map (cost_row total_cost) (take 10 sorted)
                   @ [SuggestionHeader]
                   @ suggestion_lines (take 5 sorted)
                   @ [Blank], Return ())))"

definition check_cost_by_service :: "aws \<Rightarrow> unit run" where
  "check_cost_by_service env =
     prepend [Rule, SectionTitle 2, Rule]
       (catch_client_error
          (run_bind (call (get_cost_and_usage env)) cost_report)
          (\<lambda>code msg. ([CostQueryFailed msg, CostExplorerNote, Blank], Return ())))"

section \<open>Phase 3: optimizer recommendations\<close>

definition finding_label :: "string \<Rightarrow> label" where
  "finding_label name =
     (if name = ''OVER_PROVISIONED'' then OverProvisionedLabel
      else if name = ''UNDER_PROVISIONED'' then UnderProvisionedLabel
      else if name = ''OPTIMIZED'' then OptimizedLabel
      else if name = ''NOT_OPTIMIZED'' then NotOptimizedLabel
      else Verbatim name)"

definition name_of :: "finding \<Rightarrow> string" where
  "name_of f = (case finding_name f of None \<Rightarrow> ''Unknown'' | Some n \<Rightarrow> n)"

definition value_of :: "finding \<Rightarrow> real" where
  "value_of f = (case finding_value f of None \<Rightarrow> 0 | Some v \<Rightarrow> v)"

fun render_findings :: "finding list \<Rightarrow> line list" where
  "render_findings [] = []"
| "render_findings (f # fs) =
     (if value_of f > 0
      then FindingLine (finding_label (name_of f)) (value_of f) # render_findings fs
      else render_findings fs)"

fun render_summaries :: "recommendation_summary list \<Rightarrow> line list" where
  "render_summaries [] = []"
| "render_summaries (s # ss) =
     ResourceTypeLine
       (case recommendationResourceType s of None \<Rightarrow> ''Unknown'' | Some t \<Rightarrow> t)
     # render_findings (summaries s) @ render_summaries ss"

definition check_compute_optimizer :: "aws \<Rightarrow> unit run" where
  "check_compute_optimizer env =
     prepend [Rule, SectionTitle 3, Rule]
       (catch_client_error
          (run_bind (call (get_recommendation_summaries env))
             (\<lambda>response.
                if response = []
                then ([OptimizerNoData, OptInHowTo, Blank], Return ())
                else (render_summaries response @ [Blank], Return ())))
          (\<lambda>error_code msg.
             ((if error_code = ''OptInRequiredException''
               then [OptimizerNotEnabled, OptInHowTo]
               else [OptimizerQueryFailed msg]) @ [Blank], Return ())))"

section \<open>Phase 4 and the main function\<close>

definition checklist :: "(category \<times> nat) list" where
  "checklist = [(Compute, 5), (Storage, 3), (Database, 3), (Network, 3), (Monitoring, 3)]"

definition checklist_section :: "category \<times> nat \<Rightarrow> line list" where
  "checklist_section sec = ChecklistCategory (fst sec) # map (ChecklistItem (fst sec)) [0..<snd sec]"

definition check_sustainability_tips :: "unit run" where
  "check_sustainability_tips =
     ([Rule, SectionTitle 4, Rule]
      @ concat (map checklist_section checklist)
      @ [Blank, FootprintToolHeader, FootprintToolHint 0, FootprintToolHint 1, Blank],
      Return ())"

definition header_lines :: "line list" where
  "header_lines =
     [Blank, HeaderLine 0, HeaderLine 1, HeaderLine 2, HeaderLine 3, Blank,
      HeaderLine 4, HeaderLine 5, Blank]"

definition footer_lines :: "line list" where
  "footer_lines =
     [FooterLine 0, FooterLine 1, FooterLine 2, FooterLine 3, FooterLine 4,
      FooterLine 5, FooterLine 6, FooterLine 7, Blank]"

text \<open>
  What \<^verbatim>\<open>main\<close> does after the session exists (lines 446 to 470), and after the
  utilization phase (lines 449 to 470).
\<close>

definition cost_phase :: "args \<Rightarrow> aws \<Rightarrow> unit run" where
  "cost_phase a env =
     (if \<not> skip_cost a then check_cost_by_service env else emit [CostSkipped, Blank])"

definition after_cost :: "aws \<Rightarrow> unit run" where
  "after_cost env =
     run_bind (check_compute_optimizer env)
       (\<lambda>_. run_bind check_sustainability_tips (\<lambda>_. emit footer_lines))"

definition after_ec2 :: "args \<Rightarrow> aws \<Rightarrow> unit run" where
  "after_ec2 a env = run_bind (cost_phase a env) (\<lambda>_. after_cost env)"

definition report :: "args \<Rightarrow> aws \<Rightarrow> unit run" where
  "report a env =
     run_bind (emit header_lines)
       (\<lambda>_. run_bind (create_session env (profile a) (region a))
          (\<lambda>session. run_bind (check_ec2_utilization env) (\<lambda>_. after_ec2 a env)))"

text \<open>
  \<^verbatim>\<open>main\<close>: the arguments are parsed first (line 432); the report of lines 434 to 470
  follows when they parse.
\<close>

definition main :: "parse_result \<Rightarrow> aws \<Rightarrow> unit run" where
  "main parsed env =
     (case parsed of
        Parsed a \<Rightarrow> report a env
      | HelpRequested \<Rightarrow> ([HelpText], SysExit 0)
      | UsageError \<Rightarrow> ([], SysExit 2))"

text \<open>
  The script as a process: the guarded import at the top of the file (lines 28 to 34)
  leaves with status 1 when boto3 cannot be imported; otherwise \<^verbatim>\<open>main\<close> runs. Only
  the standard output is modelled.
\<close>

definition script :: "bool \<Rightarrow> parse_result \<Rightarrow> aws \<Rightarrow> unit run" where
  "script boto3_importable parsed env =
     (if \<not> boto3_importable then ([Boto3Missing, Boto3InstallHint], SysExit 1)
      else main parsed env)"

section \<open>Notions used to state the properties\<close>

text \<open>A client call is fatal when it raises an exception that is not a \<open>ClientError\<close>.\<close>

definition fatal :: "exn + 'a \<Rightarrow> bool" where
  "fatal r =
     (case r of
        Inr v \<Rightarrow> False
      | Inl e \<Rightarrow>
          (case e of
             ClientError code msg \<Rightarrow> False
           | NoCredentialsError \<Rightarrow> True
           | ProfileNotFound m \<Rightarrow> True
           | OtherException c \<Rightarrow> True))"

text \<open>The classification of an instance, and the counter that lines 132 to 135 bump.\<close>

definition is_arm :: "ec2_instance \<Rightarrow> bool" where
  "is_arm inst = is_graviton (takeWhile (\<lambda>c. c \<noteq> CHR ''.'') (InstanceType inst))"

definition tally :: "ec2_instance \<Rightarrow> loop_state \<Rightarrow> loop_state" where
  "tally inst st =
     (if is_arm inst then st\<lparr>graviton_count := graviton_count st + 1\<rparr>
      else st\<lparr>x86_count := x86_count st + 1\<rparr>)"

text \<open>The instances that the inventory query lists (lines 102 to 105).\<close>

definition running_instances :: "aws \<Rightarrow> ec2_instance list" where
  "running_instances env =
     (case describe_instances env of
        Inl e \<Rightarrow> []
      | Inr response \<Rightarrow> concat (map Instances response))"

text \<open>No client construction or query of a phase is fatal.\<close>

definition phase_queries_ok :: "args \<Rightarrow> aws \<Rightarrow> bool" where
  "phase_queries_ok a env =
     (\<not> fatal (describe_instances env)
      \<and> (\<forall>i \<in> set (running_instances env). \<not> fatal (get_metric_statistics env (InstanceId i)))
      \<and> (skip_cost a \<or> \<not> fatal (get_cost_and_usage env))
      \<and> \<not> fatal (get_recommendation_summaries env))"

text \<open>The lines that the loop over the instances can print.\<close>

definition row_line :: "line \<Rightarrow> bool" where
  "row_line l =
     (case l of
        PermissionNotice \<Rightarrow> True
      | MetricFailureNotice c \<Rightarrow> True
      | InstanceLine a b c \<Rightarrow> True
      | NameLine n \<Rightarrow> True
      | CpuLine c \<Rightarrow> True
      | LowCpuWarning \<Rightarrow> True
      | Blank \<Rightarrow> True
      | _ \<Rightarrow> False)"

section \<open>A concrete account\<close>

text \<open>
  The end-to-end scenarios of the specification in one account: three running instances
  with 7-day utilization 2, 40 and 60 percent, three cost groups of 120, 30 and 0.005
  dollars, and an optimizer that is not opted in.
\<close>

definition instance_1 :: ec2_instance where
  "instance_1 =
     \<lparr>InstanceId = ''i-1'', InstanceType = ''t4g.micro'',
      Tags = [\<lparr>Key = ''Name'', Value = ''web''\<rparr>]\<rparr>"

definition instance_2 :: ec2_instance where
  "instance_2 = \<lparr>InstanceId = ''i-2'', InstanceType = ''m5.large'', Tags = []\<rparr>"

definition instance_3 :: ec2_instance where
  "instance_3 = \<lparr>InstanceId = ''i-3'', InstanceType = ''c6g.xlarge'', Tags = []\<rparr>"

definition cost_response :: "result_by_time list" where
  "cost_response =
     [\<lparr>Groups = [\<lparr>Key0 = ''Amazon EC2'', Amount = 120\<rparr>,
                 \<lparr>Key0 = ''Amazon S3'', Amount = 30\<rparr>,
                 \<lparr>Key0 = ''Other'', Amount = 5 / 1000\<rparr>]\<rparr>]"

definition scenario :: aws where
  "scenario =
     \<lparr>open_session = (\<lambda>p r. Inr \<lparr>Account = ''123456789012'', Arn = ''arn:aws:iam::123456789012:user/dev'',
                                region_name = Some ''ap-northeast-2''\<rparr>),
      describe_instances = Inr [\<lparr>Instances = [instance_1, instance_2, instance_3]\<rparr>],
      get_metric_statistics =
        (\<lambda>i. if i = ''i-1'' then Inr [\<lparr>Average = 2\<rparr>]
              else if i = ''i-2'' then Inr [\<lparr>Average = 40\<rparr>]
              else if i = ''i-3'' then Inr [\<lparr>Average = 60\<rparr>]
              else Inr []),
      get_cost_and_usage = Inr cost_response,
      get_recommendation_summaries = Inl (ClientError ''OptInRequiredException'' ''not opted in'')\<rparr>"

definition default_args :: args where
  "default_args = \<lparr>profile = None, region = None, skip_cost = False\<rparr>"

text \<open>
  Variants of the account: the metric query of the second instance is denied; nothing
  runs and nothing costs more than a cent; the cost endpoint cannot be reached; the
  session has credentials and no region, so that the clients of the utilization phase
  cannot be constructed; the optimizer answers with findings.
\<close>

definition denied_account :: aws where
  "denied_account =
     scenario\<lparr>get_metric_statistics :=
       (\<lambda>i. if i = ''i-2'' then Inl (ClientError ''AccessDenied'' ''not authorized'')
             else get_metric_statistics scenario i)\<rparr>"

definition quiet_account :: aws where
  "quiet_account =
     scenario\<lparr>describe_instances := Inr [],
              get_cost_and_usage := Inr [\<lparr>Groups = [\<lparr>Key0 = ''Tax'', Amount = 5 / 1000\<rparr>]\<rparr>]\<rparr>"

definition offline_account :: aws where
  "offline_account =
     quiet_account\<lparr>get_cost_and_usage := Inl (OtherException ''EndpointConnectionError'')\<rparr>"

definition no_region_account :: aws where
  "no_region_account =
     scenario\<lparr>open_session :=
                (\<lambda>p r. Inr \<lparr>Account = ''123456789012'',
                              Arn = ''arn:aws:iam::123456789012:user/dev'',
                              region_name = None\<rparr>),
              describe_instances := Inl (OtherException ''NoRegionError'')\<rparr>"

definition optimizer_response :: "recommendation_summary list" where
  "optimizer_response =
     [\<lparr>recommendationResourceType = Some ''Ec2Instance'',
       summaries =
         [\<lparr>finding_name = Some ''OVER_PROVISIONED'', finding_value = Some 2\<rparr>,
          \<lparr>finding_name = Some ''OPTIMIZED'', finding_value = Some 0\<rparr>,
          \<lparr>finding_name = Some ''NEW_KIND'', finding_value = Some 1\<rparr>]\<rparr>]"



definition rounding_response :: "result_by_time list" where
  "rounding_response =
     [\<lparr>Groups = [\<lparr>Key0 = ''Amazon EC2'', Amount = 615 / 100\<rparr>,
                 \<lparr>Key0 = ''Amazon S3'', Amount = 41 / 10\<rparr>]\<rparr>]"

definition rounding_account :: aws where
  "rounding_account = scenario\<lparr>get_cost_and_usage := Inr rounding_response\<rparr>"

text \<open>Seven material services in no particular order, two of them with the same cost.\<close>

definition busy_response :: "result_by_time list" where
  "busy_response =
     [\<lparr>Groups = [\<lparr>Key0 = ''Amazon S3'', Amount = 30\<rparr>,
                 \<lparr>Key0 = ''Amazon EC2'', Amount = 120\<rparr>,
                 \<lparr>Key0 = ''Tax'', Amount = 50\<rparr>,
                 \<lparr>Key0 = ''Amazon RDS'', Amount = 60\<rparr>,
                 \<lparr>Key0 = ''Support'', Amount = 50\<rparr>,
                 \<lparr>Key0 = ''AWS Lambda'', Amount = 5\<rparr>,
                 \<lparr>Key0 = ''Amazon DynamoDB'', Amount = 10\<rparr>]\<rparr>]"

definition busy_account :: aws where
  "busy_account = scenario\<lparr>get_cost_and_usage := Inr busy_response\<rparr>"

section \<open>Properties of the string operations\<close>

lemma py_split_takeWhile:
  "\<exists>ws. py_split sep s = takeWhile (\<lambda>c. c \<noteq> sep) s # ws"
  by (induction s) auto

lemma py_startswith_prefix: "py_startswith s t = prefix t s"
  by (induction s t rule: py_startswith.induct) auto

lemma py_in_sublist: "py_in t s = sublist t s"
proof (induction s)
  case Nil
  then show ?case by simp
next
  case (Cons c cs)
  then show ?case
    by (simp add: py_startswith_prefix sublist_Cons_right)
qed

lemma py_in_single: "py_in [c] s = (c \<in> set s)"
  by (induction s) auto

lemma py_endswith_suffix: "py_endswith s t = suffix t s"
proof
  assume "py_endswith s t"
  then have "s = take (length s - length t) s @ t"
    by (metis append_take_drop_id py_endswith_def)
  then show "suffix t s"
    by (metis suffixI)
next
  assume "suffix t s"
  then obtain p where "s = p @ t"
    by (auto simp: suffix_def)
  then show "py_endswith s t"
    by (simp add: py_endswith_def)
qed

lemma py_endswith_single: "py_endswith s [c] = (s \<noteq> [] \<and> last s = c)"
proof (cases s rule: rev_cases)
  case Nil
  then show ?thesis by (simp add: py_endswith_def)
next
  case (snoc ys y)
  then show ?thesis by (auto simp: py_endswith_suffix)
qed

lemma family_of_takeWhile:
  "family_of t = Some (takeWhile (\<lambda>c. c \<noteq> CHR ''.'') t)"
proof -
  obtain ws where "py_split (CHR ''.'') t = takeWhile (\<lambda>c. c \<noteq> CHR ''.'') t # ws"
    using py_split_takeWhile by blast
  then show ?thesis
    by (simp add: family_of_def index0_def)
qed

section \<open>Rounding keeps the sign\<close>

lemma ilog2_lower:
  assumes "0 < x"
  shows "2 powi (ilog2 x) \<le> x"
proof (cases "2 powi (bitlen (fst (quotient_of x)) - bitlen (snd (quotient_of x))) \<le> x")
  case True
  then show ?thesis by (simp add: ilog2_def Let_def)
next
  case False
  obtain p q where pq: "quotient_of x = (p, q)"
    by (cases "quotient_of x")
  have q: "0 < q" using pq by (rule quotient_of_denom_pos)
  have x: "x = of_int p / of_int q" using pq by (rule quotient_of_div)
  have p: "0 < p"
    using assms q x by (simp add: zero_less_divide_iff)
  have bp: "1 \<le> bitlen p" and bq: "1 \<le> bitlen q"
    using p q by (simp_all add: bitlen_alt_def)
  have lo: "(2::int) ^ nat (bitlen p - 1) \<le> p" and hi: "q < 2 ^ nat (bitlen q)"
    using bitlen_bounds [OF p] bitlen_bounds [OF q] by simp_all
  have num: "(2::rat) powi (bitlen p - 1) \<le> of_int p"
  proof -
    have "(2::rat) powi (bitlen p - 1) = of_int (2 ^ nat (bitlen p - 1))"
      using bp by (simp add: power_int_def)
    also have "\<dots> \<le> of_int p"
      using lo by (simp only: of_int_le_iff)
    finally show ?thesis .
  qed
  have den: "of_int q \<le> (2::rat) powi (bitlen q)"
  proof -
    have "(of_int q :: rat) \<le> of_int (2 ^ nat (bitlen q))"
      using hi by (simp only: of_int_le_iff less_imp_le)
    also have "\<dots> = (2::rat) powi (bitlen q)"
      using bq by (simp add: power_int_def)
    finally show ?thesis .
  qed
  have "(2::rat) powi (bitlen p - bitlen q - 1) = 2 powi (bitlen p - 1) / 2 powi (bitlen q)"
    using power_int_diff [of "2::rat" "bitlen p - 1" "bitlen q"] by (simp add: algebra_simps)
  also have "\<dots> \<le> of_int p / of_int q"
    using num den q p by (intro frac_le) simp_all
  finally have "(2::rat) powi (bitlen p - bitlen q - 1) \<le> x"
    using x by simp
  with False pq show ?thesis
    by (simp add: ilog2_def Let_def)
qed

lemma round_even_ge_floor: "\<lfloor>y\<rfloor> \<le> round_even y"
  by (simp add: round_even_def Let_def)

lemma rnd_zero: "rnd 0 = 0"
  by (simp add: rnd_def)

lemma rnd_pos:
  assumes "0 < x"
  shows "0 < rnd x"
proof -
  let ?e = "ilog2 x - 52"
  have "(2::rat) powi ?e \<le> 2 powi (ilog2 x)"
    by (rule power_int_increasing) simp_all
  also have "\<dots> \<le> x"
    using assms by (rule ilog2_lower)
  finally have "1 \<le> x / 2 powi ?e"
    by (simp add: le_divide_eq)
  then have "1 \<le> \<lfloor>x / 2 powi ?e\<rfloor>"
    by simp
  with round_even_ge_floor [of "x / 2 powi ?e"]
  have "0 < round_even (x / 2 powi ?e)"
    by linarith
  then have "0 < (of_int (round_even (x / 2 powi ?e)) :: rat) * 2 powi ?e"
    by (intro mult_pos_pos) simp_all
  with assms show ?thesis
    by (simp add: rnd_def Let_def)
qed

lemma rnd_nonneg: "0 \<le> x \<Longrightarrow> 0 \<le> rnd x"
  using rnd_pos [of x] by (cases "x = 0") (simp_all add: rnd_zero less_imp_le)

lemma round_even_of_int: "round_even (of_int m) = m"
  by (simp add: round_even_def)

text \<open>A positive integer below \<open>2\<^sup>5\<^sup>3\<close> is a float: rounding leaves it as it is.\<close>

lemma rnd_of_int:
  assumes "0 < n" and "n < 2 ^ 53"
  shows "rnd (of_int n) = of_int n"
proof -
  let ?x = "of_int n :: rat"
  let ?k = "ilog2 ?x"
  have x: "0 < ?x" using assms(1) by simp
  have lo: "2 powi ?k \<le> ?x"
    using x by (rule ilog2_lower)
  have k: "?k \<le> 52"
  proof (rule ccontr)
    assume "\<not> ?k \<le> 52"
    then have "53 \<le> ?k" by simp
    then have "(2::rat) powi 53 \<le> 2 powi ?k"
      by (intro power_int_increasing) simp_all
    with lo have "(2::rat) powi 53 \<le> ?x" by simp
    moreover have "?x < of_int (2 ^ 53)"
      using assms(2) by (simp only: of_int_less_iff)
    ultimately show False
      by (simp add: power_int_def)
  qed
  define j where "j = nat (52 - ?k)"
  have e: "?k - 52 = - int j"
    using k by (simp add: j_def)
  have scale: "(2::rat) powi (?k - 52) = 1 / 2 ^ j"
    by (simp add: e power_int_minus field_simps)
  have "?x / 2 powi (?k - 52) = of_int (n * 2 ^ j)"
    by (simp add: scale)
  then have "round_even (?x / 2 powi (?k - 52)) = n * 2 ^ j"
    by (simp only: round_even_of_int)
  then have "rnd ?x = of_int (n * 2 ^ j) * (1 / 2 ^ j)"
    using x by (simp add: rnd_def Let_def scale)
  then show ?thesis
    by simp
qed

lemma rnd_numeral:
  "(numeral w :: int) < 2 ^ 53 \<Longrightarrow> rnd (numeral w) = numeral w"
  using rnd_of_int [of "numeral w"] by simp

lemma fadd_pos: "0 \<le> a \<Longrightarrow> 0 < b \<Longrightarrow> 0 < fadd a b"
  by (simp add: fadd_def rnd_pos add_nonneg_pos)

lemma fdiv_nonneg: "0 \<le> a \<Longrightarrow> 0 < b \<Longrightarrow> 0 \<le> fdiv a b"
  by (simp add: fdiv_def rnd_nonneg)

lemma fmul_nonneg: "0 \<le> a \<Longrightarrow> 0 \<le> b \<Longrightarrow> 0 \<le> fmul a b"
  by (simp add: fmul_def rnd_nonneg)

lemma foldl_fadd_pos:
  "0 < acc \<Longrightarrow> \<forall>x \<in> set xs. 0 < x \<Longrightarrow> 0 < foldl fadd acc xs"
  by (induction xs arbitrary: acc) (simp_all add: fadd_pos less_imp_le)

lemma py_sum_pos:
  assumes "xs \<noteq> []" and "\<forall>x \<in> set xs. 0 < x"
  shows "0 < py_sum xs"
proof -
  obtain y ys where xs: "xs = y # ys"
    using assms(1) by (cases xs) auto
  with assms(2) have "0 < fadd 0 y" and "\<forall>x \<in> set ys. 0 < x"
    by (simp_all add: fadd_pos)
  then have "0 < foldl fadd (fadd 0 y) ys"
    by (rule foldl_fadd_pos)
  with xs show ?thesis
    by (simp add: py_sum_def)
qed

lemma py_int_floor: "0 \<le> x \<Longrightarrow> py_int x = \<lfloor>x\<rfloor>"
  by (simp add: py_int_def)

section \<open>Sequencing and handlers\<close>

lemma prepend_pair: "prepend ls (ls', r) = (ls @ ls', r)"
  by (simp add: prepend_def)

lemma snd_prepend: "snd (prepend ls r) = snd r"
  by (simp add: prepend_def)

lemma fst_prepend: "fst (prepend ls r) = ls @ fst r"
  by (simp add: prepend_def)

lemma prepend_prepend: "prepend ls (prepend ls' r) = prepend (ls @ ls') r"
  by (simp add: prepend_def)

lemma prepend_Nil: "prepend [] r = r"
  by (simp add: prepend_def)

lemma run_bind_Return: "run_bind (ls, Return v) f = prepend ls (f v)"
  by (simp add: run_bind_def)

lemma run_bind_Raise: "run_bind (ls, Raise e) f = (ls, Raise e)"
  by (simp add: run_bind_def)

lemma run_bind_SysExit: "run_bind (ls, SysExit n) f = (ls, SysExit n)"
  by (simp add: run_bind_def)

lemma run_bind_returns:
  "snd r = Return v \<Longrightarrow> run_bind r f = prepend (fst r) (f v)"
  by (simp add: run_bind_def)

lemma run_bind_emit: "run_bind (emit ls) f = prepend ls (f ())"
  by (simp add: emit_def run_bind_Return)

lemma run_bind_prepend: "run_bind (prepend ls r) f = prepend ls (run_bind r f)"
  by (cases r; cases "snd r") (auto simp: run_bind_def prepend_def)

lemma catch_Return: "catch_client_error (ls, Return v) h = (ls, Return v)"
  by (simp add: catch_client_error_def)

lemma catch_ClientError:
  "catch_client_error (ls, Raise (ClientError code msg)) h = prepend ls (h code msg)"
  by (simp add: catch_client_error_def)

lemma catch_other:
  "\<forall>code msg. e \<noteq> ClientError code msg \<Longrightarrow>
   catch_client_error (ls, Raise e) h = (ls, Raise e)"
  by (cases e) (simp_all add: catch_client_error_def)

lemma call_Inr: "call (Inr v) = ([], Return v)"
  by (simp add: call_def)

lemma call_Inl: "call (Inl e) = ([], Raise e)"
  by (simp add: call_def)

lemmas run_simps =
  prepend_pair snd_prepend fst_prepend run_bind_Return run_bind_Raise run_bind_SysExit
  run_bind_emit catch_Return catch_ClientError call_Inr call_Inl

section \<open>The metric query and the loop body\<close>

lemma fatal_cases:
  "fatal r \<or> (\<exists>v. r = Inr v) \<or> (\<exists>code msg. r = Inl (ClientError code msg))"
  by (auto simp: fatal_def split: sum.splits exn.splits)

lemma query_avg_cpu_Inr:
  "get_metric_statistics env iid = Inr dps \<Longrightarrow>
   query_avg_cpu env iid = ([], Return (avg_cpu_of dps))"
  by (simp add: query_avg_cpu_def run_simps)

lemma query_avg_cpu_ClientError:
  "get_metric_statistics env iid = Inl (ClientError code msg) \<Longrightarrow>
   query_avg_cpu env iid =
     ([if code \<in> set [''AccessDeniedException'', ''AccessDenied'']
       then PermissionNotice else MetricFailureNotice code], Return None)"
  by (simp add: query_avg_cpu_def run_simps)

lemma query_avg_cpu_fatal:
  "fatal (get_metric_statistics env iid) \<Longrightarrow>
   \<exists>e. query_avg_cpu env iid = ([], Raise e)"
  by (auto simp: fatal_def query_avg_cpu_def run_simps catch_client_error_def
           split: sum.splits exn.splits)

lemma process_instance_eq:
  "process_instance env inst st =
     run_bind (query_avg_cpu env (InstanceId inst))
       (\<lambda>avg_cpu.
          ([InstanceLine (InstanceId inst) (InstanceType inst)
              (if is_arm inst then ARM_Graviton else X86),
            NameLine (if name_tag_of (Tags inst) = [] then None
                      else Some (name_tag_of (Tags inst))),
            CpuLine avg_cpu]
           @ (if is_low avg_cpu then [LowCpuWarning] else [])
           @ [Blank],
           Return
             (if is_low avg_cpu
              then (tally inst st)\<lparr>low_utilization := low_utilization st @
                     [\<lparr>low_id = InstanceId inst, low_type = InstanceType inst,
                       low_name = name_tag_of (Tags inst), low_avg_cpu = the avg_cpu\<rparr>]\<rparr>
              else tally inst st)))"
  by (simp add: process_instance_def family_of_takeWhile tally_def is_arm_def Let_def
           cong: if_cong)

lemma process_instance_counts:
  assumes "process_instance env inst st = (ls, Return st')"
  shows "graviton_count st' = graviton_count (tally inst st)
         \<and> x86_count st' = x86_count (tally inst st)"
proof -
  obtain ls0 r where q: "query_avg_cpu env (InstanceId inst) = (ls0, r)"
    by (cases "query_avg_cpu env (InstanceId inst)")
  show ?thesis
  proof (cases r)
    case (Return avg_cpu)
    with assms q show ?thesis
      by (auto simp: process_instance_eq run_simps split: if_splits)
  next
    case (Raise e)
    with assms q show ?thesis
      by (simp add: process_instance_eq run_simps)
  next
    case (SysExit n)
    with assms q show ?thesis
      by (simp add: process_instance_eq run_simps)
  qed
qed

lemma tally_counts:
  "graviton_count (tally inst st) = graviton_count st + (if is_arm inst then 1 else 0)"
  "x86_count (tally inst st) = x86_count st + (if is_arm inst then 0 else 1)"
  by (simp_all add: tally_def)

lemma run_bind_ReturnE:
  assumes "run_bind r f = (ls, Return w)"
  obtains l1 v l2 where "r = (l1, Return v)" and "f v = (l2, Return w)" and "ls = l1 @ l2"
proof (cases r)
  case (Pair l1 o1)
  show ?thesis
  proof (cases o1)
    case (Return v)
    with Pair assms have "prepend l1 (f v) = (ls, Return w)"
      by (simp add: run_simps)
    then have "f v = (fst (f v), Return w)" and "ls = l1 @ fst (f v)"
      by (cases "f v"; simp add: prepend_def)+
    with Pair Return that show ?thesis by blast
  next
    case (Raise e)
    with Pair assms show ?thesis by (simp add: run_simps)
  next
    case (SysExit n)
    with Pair assms show ?thesis by (simp add: run_simps)
  qed
qed

lemma process_instances_counts:
  "process_instances env insts st = (ls, Return st') \<Longrightarrow>
   graviton_count st' = graviton_count st + int (length (filter is_arm insts))
   \<and> x86_count st' = x86_count st + int (length (filter (\<lambda>i. \<not> is_arm i) insts))"
proof (induction insts arbitrary: st ls)
  case Nil
  then show ?case by simp
next
  case (Cons i rest)
  from Cons.prems obtain l1 st1 l2 where
    step: "process_instance env i st = (l1, Return st1)" and
    tail: "process_instances env rest st1 = (l2, Return st')"
    by (auto elim: run_bind_ReturnE)
  from process_instance_counts [OF step] Cons.IH [OF tail] show ?case
    by (simp add: tally_counts)
qed

lemma process_instance_Inr:
  "get_metric_statistics env (InstanceId inst) = Inr dps \<Longrightarrow>
   process_instance env inst st =
     ([InstanceLine (InstanceId inst) (InstanceType inst)
         (if is_arm inst then ARM_Graviton else X86),
       NameLine (if name_tag_of (Tags inst) = [] then None
                 else Some (name_tag_of (Tags inst))),
       CpuLine (avg_cpu_of dps)]
      @ (if is_low (avg_cpu_of dps) then [LowCpuWarning] else [])
      @ [Blank],
      Return
        (if is_low (avg_cpu_of dps)
         then (tally inst st)\<lparr>low_utilization := low_utilization st @
                [\<lparr>low_id = InstanceId inst, low_type = InstanceType inst,
                  low_name = name_tag_of (Tags inst),
                  low_avg_cpu = the (avg_cpu_of dps)\<rparr>]\<rparr>
         else tally inst st))"
  by (simp add: process_instance_eq query_avg_cpu_Inr run_simps)

lemma process_instance_ClientError:
  "get_metric_statistics env (InstanceId inst) = Inl (ClientError code msg) \<Longrightarrow>
   process_instance env inst st =
     ([if code \<in> set [''AccessDeniedException'', ''AccessDenied'']
       then PermissionNotice else MetricFailureNotice code,
       InstanceLine (InstanceId inst) (InstanceType inst)
         (if is_arm inst then ARM_Graviton else X86),
       NameLine (if name_tag_of (Tags inst) = [] then None
                 else Some (name_tag_of (Tags inst))),
       CpuLine None, Blank],
      Return (tally inst st))"
  by (simp add: process_instance_eq query_avg_cpu_ClientError run_simps is_low_def)

lemma process_instance_fatal:
  "fatal (get_metric_statistics env (InstanceId inst)) \<Longrightarrow>
   \<exists>e. process_instance env inst st = ([], Raise e) \<and> fatal (Inl e :: exn + unit)"
  by (auto simp: fatal_def process_instance_eq query_avg_cpu_def run_simps
                 catch_client_error_def
           split: sum.splits exn.splits)

lemma process_instance_not_fatal:
  assumes "\<not> fatal (get_metric_statistics env (InstanceId inst))"
  shows "\<exists>ls st'. process_instance env inst st = (ls, Return st')"
  using fatal_cases [of "get_metric_statistics env (InstanceId inst)"] assms
  by (auto simp: process_instance_Inr process_instance_ClientError)

lemma process_instances_returns:
  "\<forall>i \<in> set insts. \<not> fatal (get_metric_statistics env (InstanceId i)) \<Longrightarrow>
   \<exists>ls st'. process_instances env insts st = (ls, Return st')"
proof (induction insts arbitrary: st)
  case Nil
  then show ?case by simp
next
  case (Cons i rest)
  then obtain l1 st1 where step: "process_instance env i st = (l1, Return st1)"
    using process_instance_not_fatal [of env i st] by auto
  from Cons obtain l2 st2 where "process_instances env rest st1 = (l2, Return st2)"
    by fastforce
  with step show ?case
    by (simp add: run_simps)
qed

lemma process_instances_raises:
  "\<exists>i \<in> set insts. fatal (get_metric_statistics env (InstanceId i)) \<Longrightarrow>
   \<exists>ls e. process_instances env insts st = (ls, Raise e) \<and> fatal (Inl e :: exn + unit)"
proof (induction insts arbitrary: st)
  case Nil
  then show ?case by simp
next
  case (Cons i rest)
  show ?case
  proof (cases "fatal (get_metric_statistics env (InstanceId i))")
    case True
    then show ?thesis
      using process_instance_fatal [of env i st] by (auto simp: run_simps)
  next
    case False
    then obtain l1 st1 where step: "process_instance env i st = (l1, Return st1)"
      using process_instance_not_fatal [of env i st] by auto
    from False Cons.prems
    have "\<exists>j \<in> set rest. fatal (get_metric_statistics env (InstanceId j))"
      by auto
    from Cons.IH [OF this, of st1] obtain l2 e where
      "process_instances env rest st1 = (l2, Raise e)" "fatal (Inl e :: exn + unit)"
      by auto
    with step show ?thesis
      by (simp add: run_simps)
  qed
qed

lemma catch_fatal:
  "fatal (Inl e :: exn + unit) \<Longrightarrow> catch_client_error (ls, Raise e) h = (ls, Raise e)"
  by (cases e) (simp_all add: fatal_def catch_client_error_def)

section \<open>The utilization phase\<close>

lemma ec2_ClientError:
  "describe_instances env = Inl (ClientError code msg) \<Longrightarrow>
   check_ec2_utilization env =
     ([Rule, SectionTitle 1, Rule, Ec2QueryFailed msg, Blank], Return ())"
  by (simp add: check_ec2_utilization_def run_simps)

lemma ec2_fatal:
  "fatal (describe_instances env) \<Longrightarrow>
   \<exists>e. check_ec2_utilization env = ([Rule, SectionTitle 1, Rule], Raise e)"
  by (auto simp: fatal_def check_ec2_utilization_def run_simps catch_client_error_def
           split: sum.splits exn.splits)

lemma ec2_empty:
  "describe_instances env = Inr response \<Longrightarrow> concat (map Instances response) = [] \<Longrightarrow>
   check_ec2_utilization env =
     ([Rule, SectionTitle 1, Rule, NoRunningInstances, ServerlessPraise, Blank], Return ())"
  by (simp add: check_ec2_utilization_def run_simps)

lemma ec2_loop_returns:
  "describe_instances env = Inr response \<Longrightarrow> concat (map Instances response) \<noteq> [] \<Longrightarrow>
   process_instances env (concat (map Instances response)) initial_state = (ls, Return st) \<Longrightarrow>
   check_ec2_utilization env =
     ([Rule, SectionTitle 1, Rule,
       RunningCount (int (length (concat (map Instances response))))]
      @ ls @ summary_lines st, Return ())"
  by (simp add: check_ec2_utilization_def run_simps Let_def)

lemma ec2_loop_raises:
  "describe_instances env = Inr response \<Longrightarrow> concat (map Instances response) \<noteq> [] \<Longrightarrow>
   process_instances env (concat (map Instances response)) initial_state = (ls, Raise e) \<Longrightarrow>
   fatal (Inl e :: exn + unit) \<Longrightarrow>
   check_ec2_utilization env =
     ([Rule, SectionTitle 1, Rule,
       RunningCount (int (length (concat (map Instances response))))]
      @ ls, Raise e)"
  by (simp add: check_ec2_utilization_def run_simps Let_def catch_fatal)

lemma ec2_outcome:
  "snd (check_ec2_utilization env) =
     Return () \<and> \<not> fatal (describe_instances env)
       \<and> (\<forall>i \<in> set (running_instances env). \<not> fatal (get_metric_statistics env (InstanceId i)))
   \<or> (\<exists>e. snd (check_ec2_utilization env) = Raise e)
       \<and> (fatal (describe_instances env)
           \<or> (\<exists>i \<in> set (running_instances env). fatal (get_metric_statistics env (InstanceId i))))"
proof -
  consider (f) "fatal (describe_instances env)"
    | (c) code msg where "describe_instances env = Inl (ClientError code msg)"
    | (v) response where "describe_instances env = Inr response"
    using fatal_cases [of "describe_instances env"] by blast
  then show ?thesis
  proof cases
    case f
    then show ?thesis using ec2_fatal [of env] by auto
  next
    case c
    then show ?thesis
      by (simp add: ec2_ClientError fatal_def running_instances_def)
  next
    case v
    let ?insts = "concat (map Instances response)"
    have ri: "running_instances env = ?insts"
      using v by (simp add: running_instances_def)
    have nf: "\<not> fatal (describe_instances env)"
      using v by (simp add: fatal_def)
    show ?thesis
    proof (cases "?insts = []")
      case True
      with v ri nf show ?thesis by (simp add: ec2_empty)
    next
      case False
      show ?thesis
      proof (cases "\<exists>i \<in> set ?insts. fatal (get_metric_statistics env (InstanceId i))")
        case True
        from process_instances_raises [OF True, of initial_state] obtain ls e where
          "process_instances env ?insts initial_state = (ls, Raise e)"
          "fatal (Inl e :: exn + unit)" by auto
        with v False True ri show ?thesis
          by (simp add: ec2_loop_raises)
      next
        case nofatal: False
        then have "\<forall>i \<in> set ?insts. \<not> fatal (get_metric_statistics env (InstanceId i))"
          by simp
        from process_instances_returns [OF this, of initial_state] obtain ls st where
          "process_instances env ?insts initial_state = (ls, Return st)" by auto
        with v False nofatal ri nf show ?thesis
          by (simp add: ec2_loop_returns)
      qed
    qed
  qed
qed

section \<open>The cost phase\<close>

lemma collect_groups_eq:
  "collect_groups gs (services, total_cost) =
     (services @ map (\<lambda>g. (Key0 g, py_float (Amount g)))
                   (filter (\<lambda>g. py_float (Amount g) > py_float (1 / 100)) gs),
      foldl fadd total_cost
        (map (\<lambda>g. py_float (Amount g))
           (filter (\<lambda>g. py_float (Amount g) > py_float (1 / 100)) gs)))"
  by (induction gs arbitrary: services total_cost) simp_all

lemma collect_results_eq:
  "collect_results rs (services, total_cost) =
     (services @ map (\<lambda>g. (Key0 g, py_float (Amount g)))
                   (filter (\<lambda>g. py_float (Amount g) > py_float (1 / 100))
                      (concat (map Groups rs))),
      foldl fadd total_cost
        (map (\<lambda>g. py_float (Amount g))
           (filter (\<lambda>g. py_float (Amount g) > py_float (1 / 100))
              (concat (map Groups rs)))))"
  by (induction rs arbitrary: services total_cost) (simp_all add: collect_groups_eq)

lemma collected_total:
  "snd (collect_results rs ([], 0)) = py_sum (map snd (fst (collect_results rs ([], 0))))"
  by (simp add: collect_results_eq py_sum_def comp_def)

lemma collected_material:
  "e \<in> set (fst (collect_results rs ([], 0))) \<Longrightarrow> snd e > py_float (1 / 100)"
  by (auto simp: collect_results_eq)

lemma threshold_pos: "0 < py_float (1 / 100)"
  by (simp add: py_float_def rnd_pos)

lemma collected_pos:
  "e \<in> set (fst (collect_results rs ([], 0))) \<Longrightarrow> 0 < snd e"
  using collected_material [of e rs] threshold_pos by simp

lemma mset_sort_services: "mset (sort_services xs) = mset xs"
  by (simp add: sort_services_def)

lemma set_sort_services: "set (sort_services xs) = set xs"
  by (simp add: sort_services_def)

lemma sorted_sort_services: "sorted_wrt (\<lambda>a b. snd a \<ge> snd b) (sort_services xs)"
proof -
  have "sorted (map (\<lambda>x. - snd x) (sort_key (\<lambda>x. - snd x) xs))"
    by (rule sorted_sort_key)
  then show ?thesis
    by (simp add: sort_services_def sorted_map)
qed

lemma stable_sort_services:
  "filter (\<lambda>e. snd e = k) (sort_services xs) = filter (\<lambda>e. snd e = k) xs"
  using sort_key_stable [of "\<lambda>x. - snd x" "- k" xs]
  by (simp add: sort_services_def)

lemma top_of_sorted:
  assumes "sorted_wrt (\<lambda>a b. snd a \<ge> snd b) xs"
  shows "\<forall>e \<in> set (take n xs). \<forall>e' \<in> set (drop n xs). snd e' \<le> snd e"
proof -
  have "sorted_wrt (\<lambda>a b. snd a \<ge> snd b) (take n xs @ drop n xs)"
    using assms by simp
  then show ?thesis
    unfolding sorted_wrt_append by blast
qed

lemma sum_list_sort_services:
  "sum_list (map snd (sort_services xs)) = sum_list (map snd xs)"
proof -
  have "sum_mset (image_mset snd (mset (sort_services xs))) = sum_mset (image_mset snd (mset xs))"
    by (simp add: mset_sort_services)
  then show ?thesis
    by (metis mset_map sum_mset_sum_list)
qed

lemma sum_list_take_le:
  fixes xs :: "('a \<times> rat) list"
  assumes "\<forall>e \<in> set xs. 0 \<le> snd e"
  shows "sum_list (map snd (take n xs)) \<le> sum_list (map snd xs)"
proof -
  have "sum_list (map snd xs) = sum_list (map snd (take n xs)) + sum_list (map snd (drop n xs))"
    by (metis append_take_drop_id map_append sum_list.append)
  moreover have "\<forall>e \<in> set (drop n xs). 0 \<le> snd e"
    using assms in_set_dropD by fast
  then have "0 \<le> sum_list (map snd (drop n xs))"
    by (intro sum_list_nonneg) auto
  ultimately show ?thesis by simp
qed

lemma sum_percentages:
  "sum_list (map (\<lambda>e. snd e / t * 100) xs) = sum_list (map snd xs) / t * (100::rat)"
  by (induction xs) (simp_all add: add_divide_distrib distrib_right)

lemma exact_shares_le_100:
  assumes "fst (collect_results rs ([], 0)) \<noteq> []"
  shows "sum_list (map (\<lambda>e. snd e / sum_list (map snd (fst (collect_results rs ([], 0)))) * 100)
           (take 10 (sort_services (fst (collect_results rs ([], 0)))))) \<le> 100"
proof -
  let ?services = "fst (collect_results rs ([], 0))"
  let ?total = "sum_list (map snd ?services)"
  let ?sorted = "sort_services ?services"
  have pos: "\<forall>e \<in> set ?sorted. 0 \<le> snd e"
    using collected_pos [of _ rs] by (fastforce simp: set_sort_services)
  have total: "?total = sum_list (map snd ?sorted)"
    by (simp add: sum_list_sort_services)
  obtain e es where ses: "?services = e # es"
    using assms by (cases ?services) auto
  have "0 < snd e"
    using ses collected_pos [of e rs] by simp
  moreover have "0 \<le> sum_list (map snd es)"
    using ses collected_pos [of _ rs]
    by (intro sum_list_nonneg) fastforce
  ultimately have tpos: "0 < ?total"
    using ses by simp
  have "sum_list (map snd (take 10 ?sorted)) \<le> ?total"
    using sum_list_take_le [OF pos, of 10] total by simp
  then have "sum_list (map snd (take 10 ?sorted)) / ?total \<le> 1"
    using tpos by simp
  then have "sum_list (map snd (take 10 ?sorted)) / ?total * 100 \<le> 1 * 100"
    by (rule mult_right_mono) simp
  then have "sum_list (map snd (take 10 ?sorted)) / ?total * 100 \<le> 100"
    by (simp only: mult_1)
  then show ?thesis
    by (simp only: sum_percentages)
qed

lemma total_positive:
  assumes "fst (collect_results rs ([], 0)) \<noteq> []"
  shows "0 < snd (collect_results rs ([], 0))"
proof -
  have "\<forall>x \<in> set (map snd (fst (collect_results rs ([], 0)))). 0 < x"
    using collected_pos [of _ rs] by auto
  with assms show ?thesis
    by (simp add: collected_total py_sum_pos)
qed

lemma cost_row_eq:
  assumes "0 < t" and "0 \<le> snd e"
  shows "cost_row t e =
           CostRow (snd e) (fmul (fdiv (snd e) t) 100) \<lfloor>fmul (fdiv (snd e) t) 30\<rfloor> (fst e)"
proof -
  have "0 \<le> fmul (fdiv (snd e) t) 30"
    using assms by (intro fmul_nonneg fdiv_nonneg) simp_all
  with assms(1) show ?thesis
    by (simp add: cost_row_def percentage_def bar_length_def py_int_floor)
qed

lemma cost_report_nonempty:
  "fst (collect_results rs ([], 0)) \<noteq> [] \<Longrightarrow>
   cost_report rs =
     ([TotalCostLine (snd (collect_results rs ([], 0)))]
      @ map (cost_row (snd (collect_results rs ([], 0))))
          (take 10 (sort_services (fst (collect_results rs ([], 0)))))
      @ [SuggestionHeader]
      @ suggestion_lines (take 5 (sort_services (fst (collect_results rs ([], 0)))))
      @ [Blank], Return ())"
  by (simp add: cost_report_def Let_def)

lemma cost_report_empty:
  "fst (collect_results rs ([], 0)) = [] \<Longrightarrow>
   cost_report rs = ([NoCostIncurred, Blank], Return ())"
  by (simp add: cost_report_def Let_def)

lemma cost_report_returns: "snd (cost_report rs) = Return ()"
  by (simp add: cost_report_def Let_def)

lemma cost_report_lines:
  "cost_report rs =
     ((if fst (collect_results rs ([], 0)) = [] then [NoCostIncurred, Blank]
       else [TotalCostLine (snd (collect_results rs ([], 0)))]
            @ map (cost_row (snd (collect_results rs ([], 0))))
                (take 10 (sort_services (fst (collect_results rs ([], 0)))))
            @ [SuggestionHeader]
            @ suggestion_lines (take 5 (sort_services (fst (collect_results rs ([], 0)))))
            @ [Blank]), Return ())"
  by (simp add: cost_report_def Let_def)

lemma cost_Inr:
  "get_cost_and_usage env = Inr rs \<Longrightarrow>
   check_cost_by_service env = prepend [Rule, SectionTitle 2, Rule] (cost_report rs)"
  by (simp add: check_cost_by_service_def run_simps prepend_Nil catch_client_error_def
                cost_report_returns)

lemma cost_ClientError:
  "get_cost_and_usage env = Inl (ClientError code msg) \<Longrightarrow>
   check_cost_by_service env =
     ([Rule, SectionTitle 2, Rule, CostQueryFailed msg, CostExplorerNote, Blank], Return ())"
  by (simp add: check_cost_by_service_def run_simps)

lemma cost_fatal:
  "fatal (get_cost_and_usage env) \<Longrightarrow>
   \<exists>e. check_cost_by_service env = ([Rule, SectionTitle 2, Rule], Raise e)"
  by (auto simp: fatal_def check_cost_by_service_def run_simps catch_client_error_def
           split: sum.splits exn.splits)

lemma cost_outcome:
  "snd (check_cost_by_service env) = Return () \<and> \<not> fatal (get_cost_and_usage env)
   \<or> (\<exists>e. snd (check_cost_by_service env) = Raise e) \<and> fatal (get_cost_and_usage env)"
  using fatal_cases [of "get_cost_and_usage env"] cost_fatal [of env]
  by (auto simp: cost_Inr cost_ClientError snd_prepend cost_report_returns fatal_def)

section \<open>The optimizer phase\<close>

lemma render_findings_eq:
  "render_findings fs =
     concat (map (\<lambda>f. if value_of f > 0
                        then [FindingLine (finding_label (name_of f)) (value_of f)]
                        else []) fs)"
  by (induction fs) simp_all

lemma render_summaries_eq:
  "render_summaries ss =
     concat (map (\<lambda>s. ResourceTypeLine
                          (case recommendationResourceType s of
                             None \<Rightarrow> ''Unknown'' | Some t \<Rightarrow> t)
                        # render_findings (summaries s)) ss)"
  by (induction ss) simp_all

lemma optimizer_Inr:
  "get_recommendation_summaries env = Inr ss \<Longrightarrow>
   check_compute_optimizer env =
     ([Rule, SectionTitle 3, Rule]
      @ (if ss = [] then [OptimizerNoData, OptInHowTo, Blank]
         else render_summaries ss @ [Blank]), Return ())"
  by (simp add: check_compute_optimizer_def run_simps)

lemma optimizer_ClientError:
  "get_recommendation_summaries env = Inl (ClientError code msg) \<Longrightarrow>
   check_compute_optimizer env =
     ([Rule, SectionTitle 3, Rule]
      @ (if code = ''OptInRequiredException'' then [OptimizerNotEnabled, OptInHowTo]
         else [OptimizerQueryFailed msg]) @ [Blank], Return ())"
  by (simp add: check_compute_optimizer_def run_simps)

lemma optimizer_fatal:
  "fatal (get_recommendation_summaries env) \<Longrightarrow>
   \<exists>e. check_compute_optimizer env = ([Rule, SectionTitle 3, Rule], Raise e)"
  by (auto simp: fatal_def check_compute_optimizer_def run_simps catch_client_error_def
           split: sum.splits exn.splits)

lemma optimizer_outcome:
  "snd (check_compute_optimizer env) = Return () \<and> \<not> fatal (get_recommendation_summaries env)
   \<or> (\<exists>e. snd (check_compute_optimizer env) = Raise e)
       \<and> fatal (get_recommendation_summaries env)"
  using fatal_cases [of "get_recommendation_summaries env"] optimizer_fatal [of env]
  by (auto simp: optimizer_Inr optimizer_ClientError fatal_def)


section \<open>The main function\<close>

lemma run_bind_raises: "snd r = Raise e \<Longrightarrow> run_bind r f = (fst r, Raise e)"
  by (simp add: run_bind_def)

lemma tips_lines:
  "check_sustainability_tips =
     ([Rule, SectionTitle 4, Rule,
           ChecklistCategory Compute, ChecklistItem Compute 0, ChecklistItem Compute 1,
           ChecklistItem Compute 2, ChecklistItem Compute 3, ChecklistItem Compute 4,
           ChecklistCategory Storage, ChecklistItem Storage 0, ChecklistItem Storage 1,
           ChecklistItem Storage 2,
           ChecklistCategory Database, ChecklistItem Database 0, ChecklistItem Database 1,
           ChecklistItem Database 2,
           ChecklistCategory Network, ChecklistItem Network 0, ChecklistItem Network 1,
           ChecklistItem Network 2,
           ChecklistCategory Monitoring, ChecklistItem Monitoring 0,
           ChecklistItem Monitoring 1, ChecklistItem Monitoring 2,
           Blank, FootprintToolHeader, FootprintToolHint 0, FootprintToolHint 1, Blank], Return ())"
  by (simp add: check_sustainability_tips_def checklist_def checklist_section_def
                upt_conv_Cons eval_nat_numeral)

lemma cost_phase_lines:
  assumes "skip_cost a \<or> \<not> fatal (get_cost_and_usage env)"
  shows "cost_phase a env =
     ((if skip_cost a then [CostSkipped, Blank]
            else [Rule, SectionTitle 2, Rule]
                 @ (case get_cost_and_usage env of
                    Inr rs \<Rightarrow>
                      (if fst (collect_results rs ([], 0)) = [] then [NoCostIncurred, Blank]
                       else [TotalCostLine (snd (collect_results rs ([], 0)))]
                            @ map (cost_row (snd (collect_results rs ([], 0))))
                                (take 10 (sort_services (fst (collect_results rs ([], 0)))))
                            @ [SuggestionHeader]
                            @ suggestion_lines
                                (take 5 (sort_services (fst (collect_results rs ([], 0)))))
                            @ [Blank])
                  | Inl e \<Rightarrow>
                      (case e of
                         ClientError code msg \<Rightarrow>
                           [CostQueryFailed msg, CostExplorerNote, Blank]
                       | _ \<Rightarrow> []))), Return ())"
proof (cases "skip_cost a")
  case True
  then show ?thesis by (simp add: cost_phase_def emit_def)
next
  case False
  with assms have "\<not> fatal (get_cost_and_usage env)" by simp
  with fatal_cases [of "get_cost_and_usage env"] False show ?thesis
    by (auto simp: cost_phase_def cost_Inr cost_ClientError cost_report_lines prepend_def)
qed

lemma optimizer_lines:
  assumes "\<not> fatal (get_recommendation_summaries env)"
  shows "check_compute_optimizer env =
     ([Rule, SectionTitle 3, Rule]
         @ (case get_recommendation_summaries env of
              Inr ss \<Rightarrow>
                (if ss = [] then [OptimizerNoData, OptInHowTo, Blank]
                 else render_summaries ss @ [Blank])
            | Inl e \<Rightarrow>
                (case e of
                   ClientError code msg \<Rightarrow>
                     (if code = ''OptInRequiredException''
                      then [OptimizerNotEnabled, OptInHowTo]
                      else [OptimizerQueryFailed msg]) @ [Blank]
                 | _ \<Rightarrow> [])), Return ())"
  using fatal_cases [of "get_recommendation_summaries env"] assms
  by (auto simp: optimizer_Inr optimizer_ClientError)

lemma after_cost_lines:
  assumes "\<not> fatal (get_recommendation_summaries env)"
  shows "after_cost env =
     ([Rule, SectionTitle 3, Rule]
         @ (case get_recommendation_summaries env of
              Inr ss \<Rightarrow>
                (if ss = [] then [OptimizerNoData, OptInHowTo, Blank]
                 else render_summaries ss @ [Blank])
            | Inl e \<Rightarrow>
                (case e of
                   ClientError code msg \<Rightarrow>
                     (if code = ''OptInRequiredException''
                      then [OptimizerNotEnabled, OptInHowTo]
                      else [OptimizerQueryFailed msg]) @ [Blank]
                 | _ \<Rightarrow> []))
      @ [Rule, SectionTitle 4, Rule,
           ChecklistCategory Compute, ChecklistItem Compute 0, ChecklistItem Compute 1,
           ChecklistItem Compute 2, ChecklistItem Compute 3, ChecklistItem Compute 4,
           ChecklistCategory Storage, ChecklistItem Storage 0, ChecklistItem Storage 1,
           ChecklistItem Storage 2,
           ChecklistCategory Database, ChecklistItem Database 0, ChecklistItem Database 1,
           ChecklistItem Database 2,
           ChecklistCategory Network, ChecklistItem Network 0, ChecklistItem Network 1,
           ChecklistItem Network 2,
           ChecklistCategory Monitoring, ChecklistItem Monitoring 0,
           ChecklistItem Monitoring 1, ChecklistItem Monitoring 2,
           Blank, FootprintToolHeader, FootprintToolHint 0, FootprintToolHint 1, Blank]
      @ [FooterLine 0, FooterLine 1, FooterLine 2, FooterLine 3, FooterLine 4,
           FooterLine 5, FooterLine 6, FooterLine 7, Blank], Return ())"
  by (simp add: after_cost_def optimizer_lines [OF assms] tips_lines run_simps emit_def
                footer_lines_def)

lemma after_cost_fatal:
  "fatal (get_recommendation_summaries env) \<Longrightarrow>
   \<exists>e. after_cost env = ([Rule, SectionTitle 3, Rule], Raise e)"
  using optimizer_fatal [of env]
  by (auto simp: after_cost_def run_simps)

lemma cost_phase_outcome:
  "snd (cost_phase a env) = Return () \<and> (skip_cost a \<or> \<not> fatal (get_cost_and_usage env))
   \<or> (\<exists>e. snd (cost_phase a env) = Raise e) \<and> \<not> skip_cost a \<and> fatal (get_cost_and_usage env)"
  using cost_outcome [of env]
  by (auto simp: cost_phase_def emit_def)

lemma after_ec2_lines:
  assumes c: "skip_cost a \<or> \<not> fatal (get_cost_and_usage env)"
    and o: "\<not> fatal (get_recommendation_summaries env)"
  shows "after_ec2 a env =
     ((if skip_cost a then [CostSkipped, Blank]
            else [Rule, SectionTitle 2, Rule]
                 @ (case get_cost_and_usage env of
                    Inr rs \<Rightarrow>
                      (if fst (collect_results rs ([], 0)) = [] then [NoCostIncurred, Blank]
                       else [TotalCostLine (snd (collect_results rs ([], 0)))]
                            @ map (cost_row (snd (collect_results rs ([], 0))))
                                (take 10 (sort_services (fst (collect_results rs ([], 0)))))
                            @ [SuggestionHeader]
                            @ suggestion_lines
                                (take 5 (sort_services (fst (collect_results rs ([], 0)))))
                            @ [Blank])
                  | Inl e \<Rightarrow>
                      (case e of
                         ClientError code msg \<Rightarrow>
                           [CostQueryFailed msg, CostExplorerNote, Blank]
                       | _ \<Rightarrow> [])))
      @ [Rule, SectionTitle 3, Rule]
         @ (case get_recommendation_summaries env of
              Inr ss \<Rightarrow>
                (if ss = [] then [OptimizerNoData, OptInHowTo, Blank]
                 else render_summaries ss @ [Blank])
            | Inl e \<Rightarrow>
                (case e of
                   ClientError code msg \<Rightarrow>
                     (if code = ''OptInRequiredException''
                      then [OptimizerNotEnabled, OptInHowTo]
                      else [OptimizerQueryFailed msg]) @ [Blank]
                 | _ \<Rightarrow> []))
      @ [Rule, SectionTitle 4, Rule,
           ChecklistCategory Compute, ChecklistItem Compute 0, ChecklistItem Compute 1,
           ChecklistItem Compute 2, ChecklistItem Compute 3, ChecklistItem Compute 4,
           ChecklistCategory Storage, ChecklistItem Storage 0, ChecklistItem Storage 1,
           ChecklistItem Storage 2,
           ChecklistCategory Database, ChecklistItem Database 0, ChecklistItem Database 1,
           ChecklistItem Database 2,
           ChecklistCategory Network, ChecklistItem Network 0, ChecklistItem Network 1,
           ChecklistItem Network 2,
           ChecklistCategory Monitoring, ChecklistItem Monitoring 0,
           ChecklistItem Monitoring 1, ChecklistItem Monitoring 2,
           Blank, FootprintToolHeader, FootprintToolHint 0, FootprintToolHint 1, Blank]
      @ [FooterLine 0, FooterLine 1, FooterLine 2, FooterLine 3, FooterLine 4,
           FooterLine 5, FooterLine 6, FooterLine 7, Blank], Return ())"
  by (simp only: after_ec2_def cost_phase_lines [OF c] after_cost_lines [OF o]
                 run_bind_Return prepend_pair)

lemma after_ec2_status:
  "exit_status (snd (after_ec2 a env)) =
     (if (skip_cost a \<or> \<not> fatal (get_cost_and_usage env))
         \<and> \<not> fatal (get_recommendation_summaries env) then 0 else 1)"
proof (cases "skip_cost a \<or> \<not> fatal (get_cost_and_usage env)")
  case cost_ok: True
  then have ret: "snd (cost_phase a env) = Return ()"
    using cost_phase_outcome [of a env] by auto
  show ?thesis
  proof (cases "fatal (get_recommendation_summaries env)")
    case True
    then show ?thesis
      using after_cost_fatal [of env] cost_ok ret
      by (auto simp: after_ec2_def run_bind_returns prepend_def)
  next
    case False
    with cost_ok show ?thesis
      by (simp only: after_ec2_lines snd_conv exit_status.simps if_True simp_thms)
  qed
next
  case False
  then obtain e where "snd (cost_phase a env) = Raise e"
    using cost_phase_outcome [of a env] by auto
  with False show ?thesis
    by (simp add: after_ec2_def run_bind_raises)
qed

lemma report_session_ok:
  "open_session env (truthy (profile a)) (truthy (region a)) = Inr ident \<Longrightarrow>
   report a env =
     prepend ([Blank, HeaderLine 0, HeaderLine 1, HeaderLine 2, HeaderLine 3, Blank,
         HeaderLine 4, HeaderLine 5, Blank]
              @ [AuthAccount (Account ident), AuthArn (Arn ident),
           AuthRegion (region_name ident), Blank])
       (run_bind (check_ec2_utilization env) (\<lambda>_. after_ec2 a env))"
  by (simp add: report_def create_session_def run_simps prepend_prepend header_lines_def)

lemma report_session_fails:
  "open_session env (truthy (profile a)) (truthy (region a)) = Inl e \<Longrightarrow>
   exit_status (snd (report a env)) = 1"
  by (cases e) (simp_all add: report_def create_session_def run_simps)

lemma report_status:
  "exit_status (snd (report a env)) =
     (if \<not> isl (open_session env (truthy (profile a)) (truthy (region a)))
         \<and> phase_queries_ok a env then 0 else 1)"
proof (cases "open_session env (truthy (profile a)) (truthy (region a))")
  case (Inl e)
  then show ?thesis
    using report_session_fails [of env a e] by simp
next
  case (Inr ident)
  note m = report_session_ok [OF Inr]
  show ?thesis
  proof (cases "snd (check_ec2_utilization env)")
    case (Return u)
    with ec2_outcome [of env] have
      "\<not> fatal (describe_instances env)
       \<and> (\<forall>i \<in> set (running_instances env). \<not> fatal (get_metric_statistics env (InstanceId i)))"
      by auto
    with Return Inr show ?thesis
      by (simp add: m snd_prepend run_bind_returns after_ec2_status phase_queries_ok_def)
  next
    case (Raise e)
    with ec2_outcome [of env] have
      "fatal (describe_instances env)
       \<or> (\<exists>i \<in> set (running_instances env). fatal (get_metric_statistics env (InstanceId i)))"
      by auto
    with Raise Inr show ?thesis
      by (auto simp: m snd_prepend run_bind_raises phase_queries_ok_def)
  next
    case (SysExit n)
    with ec2_outcome [of env] show ?thesis by auto
  qed
qed

lemma report_completes:
  assumes "open_session env (truthy (profile a)) (truthy (region a)) = Inr ident"
    and "phase_queries_ok a env"
  shows "report a env =
     ([Blank, HeaderLine 0, HeaderLine 1, HeaderLine 2, HeaderLine 3, Blank,
         HeaderLine 4, HeaderLine 5, Blank]
      @ [AuthAccount (Account ident), AuthArn (Arn ident),
           AuthRegion (region_name ident), Blank]
      @ fst (check_ec2_utilization env)
      @ (if skip_cost a then [CostSkipped, Blank]
            else [Rule, SectionTitle 2, Rule]
                 @ (case get_cost_and_usage env of
                    Inr rs \<Rightarrow>
                      (if fst (collect_results rs ([], 0)) = [] then [NoCostIncurred, Blank]
                       else [TotalCostLine (snd (collect_results rs ([], 0)))]
                            @ map (cost_row (snd (collect_results rs ([], 0))))
                                (take 10 (sort_services (fst (collect_results rs ([], 0)))))
                            @ [SuggestionHeader]
                            @ suggestion_lines
                                (take 5 (sort_services (fst (collect_results rs ([], 0)))))
                            @ [Blank])
                  | Inl e \<Rightarrow>
                      (case e of
                         ClientError code msg \<Rightarrow>
                           [CostQueryFailed msg, CostExplorerNote, Blank]
                       | _ \<Rightarrow> [])))
      @ [Rule, SectionTitle 3, Rule]
         @ (case get_recommendation_summaries env of
              Inr ss \<Rightarrow>
                (if ss = [] then [OptimizerNoData, OptInHowTo, Blank]
                 else render_summaries ss @ [Blank])
            | Inl e \<Rightarrow>
                (case e of
                   ClientError code msg \<Rightarrow>
                     (if code = ''OptInRequiredException''
                      then [OptimizerNotEnabled, OptInHowTo]
                      else [OptimizerQueryFailed msg]) @ [Blank]
                 | _ \<Rightarrow> []))
      @ [Rule, SectionTitle 4, Rule,
           ChecklistCategory Compute, ChecklistItem Compute 0, ChecklistItem Compute 1,
           ChecklistItem Compute 2, ChecklistItem Compute 3, ChecklistItem Compute 4,
           ChecklistCategory Storage, ChecklistItem Storage 0, ChecklistItem Storage 1,
           ChecklistItem Storage 2,
           ChecklistCategory Database, ChecklistItem Database 0, ChecklistItem Database 1,
           ChecklistItem Database 2,
           ChecklistCategory Network, ChecklistItem Network 0, ChecklistItem Network 1,
           ChecklistItem Network 2,
           ChecklistCategory Monitoring, ChecklistItem Monitoring 0,
           ChecklistItem Monitoring 1, ChecklistItem Monitoring 2,
           Blank, FootprintToolHeader, FootprintToolHint 0, FootprintToolHint 1, Blank]
      @ [FooterLine 0, FooterLine 1, FooterLine 2, FooterLine 3, FooterLine 4,
           FooterLine 5, FooterLine 6, FooterLine 7, Blank], Return ())"
proof -
  have ret: "snd (check_ec2_utilization env) = Return ()"
    using ec2_outcome [of env] assms(2) by (auto simp: phase_queries_ok_def)
  have c: "skip_cost a \<or> \<not> fatal (get_cost_and_usage env)"
    and o: "\<not> fatal (get_recommendation_summaries env)"
    using assms(2) by (auto simp: phase_queries_ok_def)
  show ?thesis
    by (simp only: report_session_ok [OF assms(1)] run_bind_returns [OF ret]
                   after_ec2_lines [OF c o] prepend_pair fst_conv snd_conv append_assoc)
qed

lemma main_status:
  "exit_status (snd (main parsed env)) =
     (case parsed of
        Parsed a \<Rightarrow>
          (if \<not> isl (open_session env (truthy (profile a)) (truthy (region a)))
              \<and> phase_queries_ok a env then 0 else 1)
      | HelpRequested \<Rightarrow> 0
      | UsageError \<Rightarrow> 2)"
  by (cases parsed) (simp_all add: main_def report_status)

section \<open>The claims of the specification\<close>

lemma process_instances_append:
  "process_instances env (xs @ ys) st =
     run_bind (process_instances env xs st) (\<lambda>st'. process_instances env ys st')"
proof (induction xs arbitrary: st)
  case Nil
  then show ?case by (simp add: run_simps prepend_Nil)
next
  case (Cons x xs)
  show ?case
  proof (cases "process_instance env x st")
    case (Pair l1 o1)
    then show ?thesis
      by (cases o1) (simp_all add: Cons.IH run_simps run_bind_prepend)
  qed
qed

lemma process_instance_lines:
  "\<forall>l \<in> set (fst (process_instance env inst st)). row_line l"
  using fatal_cases [of "get_metric_statistics env (InstanceId inst)"]
        process_instance_fatal [of env inst st]
  by (auto simp: process_instance_Inr process_instance_ClientError row_line_def)

lemma process_instances_lines:
  "\<forall>l \<in> set (fst (process_instances env insts st)). row_line l"
proof (induction insts arbitrary: st)
  case Nil
  then show ?case by simp
next
  case (Cons i rest)
  show ?case
  proof (cases "process_instance env i st")
    case (Pair l1 o1)
    with process_instance_lines [of env i st] have "\<forall>l \<in> set l1. row_line l"
      by simp
    with Pair Cons.IH show ?thesis
      by (cases o1) (auto simp: run_simps)
  qed
qed

text \<open>
  Claim C1. The family of an instance type is its part before the first dot, and the
  indexing that takes it never fails. A family is classified as ARM (Graviton) exactly
  when it ends with the letter g or has a g after its first character. The empty family
  and the one-character family t are classified as x86 without an error.
\<close>

theorem classify_family:
  "family_of t = Some (takeWhile (\<lambda>c. c \<noteq> CHR ''.'') t)
   \<and> (is_graviton f \<longleftrightarrow> (f \<noteq> [] \<and> last f = CHR ''g'') \<or> CHR ''g'' \<in> set (drop 1 f))
   \<and> \<not> is_graviton '''' \<and> \<not> is_graviton ''t''"
  by (simp add: family_of_takeWhile is_graviton_def py_endswith_single py_in_single)

theorem classify_family_witness:
  "family_of ''t4g.micro'' = Some ''t4g'' \<and> is_graviton ''t4g'' \<and> \<not> is_graviton ''m5''"
  using classify_family [of "''t4g.micro''" "''t4g''"] classify_family [of "''m5.large''" "''m5''"]
  by simp

text \<open>
  Claim C10. When the loop over the running instances completes, the Graviton counter is
  the number of instances classified as ARM, the x86 counter is the number of the others,
  the two add up to the number of instances, and the denominator of the ARM percentage is
  that number.
\<close>

theorem tally_partition:
  assumes "process_instances env insts initial_state = (ls, Return st)"
  shows "graviton_count st = int (length (filter is_arm insts))
         \<and> x86_count st = int (length (filter (\<lambda>i. \<not> is_arm i) insts))
         \<and> graviton_count st + x86_count st = int (length insts)
         \<and> graviton_ratio (graviton_count st) (x86_count st) =
             real_of_int (graviton_count st) / real (length insts) * 100"
proof -
  have g: "graviton_count st = int (length (filter is_arm insts))"
    and x: "x86_count st = int (length (filter (\<lambda>i. \<not> is_arm i) insts))"
    using process_instances_counts [OF assms] by (simp_all add: initial_state_def)
  have "length (filter is_arm insts) + length (filter (\<lambda>i. \<not> is_arm i) insts) = length insts"
    by (rule sum_length_filter_compl)
  with g x have s: "graviton_count st + x86_count st = int (length insts)"
    by linarith
  from g x s show ?thesis
    by (simp add: graviton_ratio_def)
qed

theorem tally_partition_witness:
  "(\<exists>ls st. process_instances scenario [instance_1, instance_2, instance_3] initial_state
              = (ls, Return st)
          \<and> graviton_count st = 2 \<and> x86_count st = 1)"
proof -
  have ok: "\<forall>i \<in> set [instance_1, instance_2, instance_3].
              \<not> fatal (get_metric_statistics scenario (InstanceId i))"
    by (simp add: scenario_def instance_1_def instance_2_def instance_3_def fatal_def)
  from process_instances_returns [OF ok, of initial_state] obtain ls st where
    run: "process_instances scenario [instance_1, instance_2, instance_3] initial_state
            = (ls, Return st)" by blast
  have arm: "is_arm instance_1" "\<not> is_arm instance_2" "is_arm instance_3"
    by (simp_all add: is_arm_def instance_1_def instance_2_def instance_3_def
                      is_graviton_def py_endswith_def)
  from tally_partition [OF run] arm run show ?thesis
    by simp
qed

text \<open>
  Claim C7. When the inventory lists at least one running instance and the loop over the
  instances completes, the phase prints one ARM percentage, which is
  graviton_count / (graviton_count + x86_count) * 100, and it prints the suggestion to
  move x86 instances to Graviton exactly when that percentage is below 50.
\<close>

theorem graviton_ratio_policy:
  assumes d: "describe_instances env = Inr response"
    and ne: "concat (map Instances response) \<noteq> []"
    and run: "process_instances env (concat (map Instances response)) initial_state
                = (ls, Return st)"
  shows "fst (check_ec2_utilization env) =
           [Rule, SectionTitle 1, Rule,
            RunningCount (int (length (concat (map Instances response))))]
           @ ls @ summary_lines st
         \<and> graviton_count st + x86_count st > 0
         \<and> (GravitonRatioLine r \<in> set (fst (check_ec2_utilization env)) \<longleftrightarrow>
              r = real_of_int (graviton_count st)
                    / real_of_int (graviton_count st + x86_count st) * 100)
         \<and> (SuggestGraviton \<in> set (fst (check_ec2_utilization env)) \<longleftrightarrow>
              real_of_int (graviton_count st)
                / real_of_int (graviton_count st + x86_count st) * 100 < 50)"
proof -
  let ?insts = "concat (map Instances response)"
  have out: "fst (check_ec2_utilization env) =
               [Rule, SectionTitle 1, Rule, RunningCount (int (length ?insts))]
               @ ls @ summary_lines st"
    by (simp add: ec2_loop_returns [OF d ne run])
  have "length (filter is_arm ?insts) + length (filter (\<lambda>i. \<not> is_arm i) ?insts)
          = length ?insts"
    by (rule sum_length_filter_compl)
  with process_instances_counts [OF run]
  have "graviton_count st + x86_count st = int (length ?insts)"
    by (simp add: initial_state_def)
  with ne have pos: "graviton_count st + x86_count st > 0"
    by simp
  have rows: "\<forall>l \<in> set ls. row_line l"
    using process_instances_lines [of env ?insts initial_state] run by simp
  have no_ratio: "GravitonRatioLine r \<notin> set ls" and no_sugg: "SuggestGraviton \<notin> set ls"
    using rows by (auto simp: row_line_def)
  from out pos no_ratio no_sugg show ?thesis
    by (auto simp: summary_lines_def graviton_ratio_def)
qed

theorem graviton_ratio_policy_witness:
  "describe_instances scenario = Inr [\<lparr>Instances = [instance_1, instance_2, instance_3]\<rparr>]
   \<and> GravitonRatioLine (2 / 3 * 100) \<in> set (fst (check_ec2_utilization scenario))
   \<and> SuggestGraviton \<notin> set (fst (check_ec2_utilization scenario))"
proof -
  let ?response = "[\<lparr>Instances = [instance_1, instance_2, instance_3]\<rparr>]"
  have d: "describe_instances scenario = Inr ?response"
    by (simp add: scenario_def)
  have ne: "concat (map Instances ?response) \<noteq> []"
    by simp
  have ok: "\<forall>i \<in> set (concat (map Instances ?response)).
              \<not> fatal (get_metric_statistics scenario (InstanceId i))"
    by (simp add: scenario_def instance_1_def instance_2_def instance_3_def fatal_def)
  from process_instances_returns [OF ok, of initial_state] obtain ls st where
    run: "process_instances scenario (concat (map Instances ?response)) initial_state
            = (ls, Return st)" by blast
  have arm: "is_arm instance_1" "\<not> is_arm instance_2" "is_arm instance_3"
    by (simp_all add: is_arm_def instance_1_def instance_2_def instance_3_def
                      is_graviton_def py_endswith_def)
  from process_instances_counts [OF run] arm
  have counts: "graviton_count st = 2" "x86_count st = 1"
    by (simp_all add: initial_state_def)
  note policy = graviton_ratio_policy [OF d ne run, of "2 / 3 * 100"]
  from policy [THEN conjunct2, THEN conjunct2] counts d show ?thesis
    by simp
qed

text \<open>
  Claim C8. Each finding with a positive count prints one line, labelled by the fixed
  mapping of the four category names; a name outside the mapping is its own label; a
  finding with count zero prints nothing; and the optimizer phase prints, for every
  summary it received, the resource type followed by these lines.
\<close>

theorem optimizer_labels:
  "render_findings fs =
     concat (map (\<lambda>f. if value_of f > 0
                        then [FindingLine (finding_label (name_of f)) (value_of f)]
                        else []) fs)
   \<and> finding_label ''OVER_PROVISIONED'' = OverProvisionedLabel
   \<and> finding_label ''UNDER_PROVISIONED'' = UnderProvisionedLabel
   \<and> finding_label ''OPTIMIZED'' = OptimizedLabel
   \<and> finding_label ''NOT_OPTIMIZED'' = NotOptimizedLabel
   \<and> (name \<notin> set [''OVER_PROVISIONED'', ''UNDER_PROVISIONED'', ''OPTIMIZED'', ''NOT_OPTIMIZED'']
        \<longrightarrow> finding_label name = Verbatim name)
   \<and> (value_of f = 0 \<longrightarrow> render_findings [f] = [])
   \<and> (get_recommendation_summaries env = Inr ss \<and> ss \<noteq> [] \<longrightarrow>
        check_compute_optimizer env =
          ([Rule, SectionTitle 3, Rule]
           @ concat (map (\<lambda>s. ResourceTypeLine
                                 (case recommendationResourceType s of
                                    None \<Rightarrow> ''Unknown'' | Some t \<Rightarrow> t)
                               # render_findings (summaries s)) ss)
           @ [Blank], Return ()))"
proof -
  have labels: "finding_label ''OVER_PROVISIONED'' = OverProvisionedLabel"
    "finding_label ''UNDER_PROVISIONED'' = UnderProvisionedLabel"
    "finding_label ''OPTIMIZED'' = OptimizedLabel"
    "finding_label ''NOT_OPTIMIZED'' = NotOptimizedLabel"
    by (simp_all add: finding_label_def)
  have other: "name \<notin> set [''OVER_PROVISIONED'', ''UNDER_PROVISIONED'', ''OPTIMIZED'',
                            ''NOT_OPTIMIZED''] \<longrightarrow> finding_label name = Verbatim name"
    by (simp add: finding_label_def)
  have zero: "value_of f = 0 \<longrightarrow> render_findings [f] = []"
    by simp
  have phase: "get_recommendation_summaries env = Inr ss \<and> ss \<noteq> [] \<longrightarrow>
        check_compute_optimizer env =
          ([Rule, SectionTitle 3, Rule]
           @ concat (map (\<lambda>s. ResourceTypeLine
                                 (case recommendationResourceType s of
                                    None \<Rightarrow> ''Unknown'' | Some t \<Rightarrow> t)
                               # render_findings (summaries s)) ss)
           @ [Blank], Return ())"
    by (simp add: optimizer_Inr render_summaries_eq)
  from render_findings_eq [of fs] labels other zero phase show ?thesis
    by (simp only: simp_thms)
qed

theorem optimizer_labels_witness:
  "get_recommendation_summaries
     (scenario\<lparr>get_recommendation_summaries := Inr optimizer_response\<rparr>)
     = Inr optimizer_response
   \<and> optimizer_response \<noteq> []
   \<and> check_compute_optimizer
       (scenario\<lparr>get_recommendation_summaries := Inr optimizer_response\<rparr>) =
       ([Rule, SectionTitle 3, Rule, ResourceTypeLine ''Ec2Instance'',
         FindingLine OverProvisionedLabel 2, FindingLine (Verbatim ''NEW_KIND'') 1, Blank],
        Return ())"
proof -
  have h: "get_recommendation_summaries
             (scenario\<lparr>get_recommendation_summaries := Inr optimizer_response\<rparr>)
           = Inr optimizer_response"
    by simp
  have ne: "optimizer_response \<noteq> []"
    by (simp add: optimizer_response_def)
  note t = optimizer_labels [where env = "scenario\<lparr>get_recommendation_summaries := Inr optimizer_response\<rparr>"
                               and ss = optimizer_response and fs = "[]"]
  from t h ne have "check_compute_optimizer
       (scenario\<lparr>get_recommendation_summaries := Inr optimizer_response\<rparr>) =
          ([Rule, SectionTitle 3, Rule]
           @ concat (map (\<lambda>s. ResourceTypeLine
                                 (case recommendationResourceType s of
                                    None \<Rightarrow> ''Unknown'' | Some t \<Rightarrow> t)
                               # render_findings (summaries s)) optimizer_response)
           @ [Blank], Return ())"
    by blast
  then show ?thesis
    using h ne by (simp add: optimizer_response_def value_of_def name_of_def finding_label_def)
qed






section \<open>Evaluation at the concrete accounts\<close>

lemma scenario_collected:
  "collect_results cost_response ([], 0)
     = ([(''Amazon EC2'', 120), (''Amazon S3'', 30)], 150)"
  by code_simp

lemma scenario_rows:
  "[TotalCostLine 150]
   @ map (cost_row 150) (take 10 (sort_services [(''Amazon EC2'', 120), (''Amazon S3'', 30)]))
   @ [SuggestionHeader]
   @ suggestion_lines (take 5 (sort_services [(''Amazon EC2'', 120), (''Amazon S3'', 30)]))
   @ [Blank]
   = [TotalCostLine 150, CostRow 120 80 24 ''Amazon EC2'', CostRow 30 20 6 ''Amazon S3'',
      SuggestionHeader, Suggestion EC2, Suggestion S3, Blank]"
  by code_simp

lemma rounding_collected:
  "collect_results rounding_response ([], 0)
     = ([(''Amazon EC2'', py_float (615 / 100)), (''Amazon S3'', py_float (41 / 10))], 41 / 4)"
  by code_simp

lemma rounding_sorted:
  "sort_services [(''Amazon EC2'', py_float (615 / 100)), (''Amazon S3'', py_float (41 / 10))]
     = [(''Amazon EC2'', py_float (615 / 100)), (''Amazon S3'', py_float (41 / 10))]"
  by code_simp

lemma rounding_row_1:
  "cost_row (41 / 4) (''Amazon EC2'', py_float (615 / 100))
     = CostRow (py_float (615 / 100)) (60 + 1 / 2 ^ 47) 18 ''Amazon EC2''"
  by code_simp

lemma rounding_row_2:
  "cost_row (41 / 4) (''Amazon S3'', py_float (41 / 10))
     = CostRow (py_float (41 / 10)) 40 11 ''Amazon S3''"
  by code_simp

lemma take_two: "take 10 [x, y] = [x, y]" "take 5 [x, y] = [x, y]"
  by simp_all

lemma two_suggestions:
  "suggestion_lines [(''Amazon EC2'', u), (''Amazon S3'', v)] = [Suggestion EC2, Suggestion S3]"
  by (simp add: suggestion_for_def)

lemma threshold_value: "py_float (1 / 100) = 5764607523034235 / 576460752303423488"
  by code_simp

lemma busy_collected:
  "collect_results busy_response ([], 0) =
     ([(''Amazon S3'', 30), (''Amazon EC2'', 120), (''Tax'', 50), (''Amazon RDS'', 60),
       (''Support'', 50), (''AWS Lambda'', 5), (''Amazon DynamoDB'', 10)], 325)"
  by (simp add: busy_response_def threshold_value fadd_def rnd_numeral)
     (simp add: py_float_def rnd_numeral)

lemma busy_sorted:
  "sort_services [(''Amazon S3'', 30), (''Amazon EC2'', 120), (''Tax'', 50), (''Amazon RDS'', 60),
       (''Support'', 50), (''AWS Lambda'', 5), (''Amazon DynamoDB'', 10)]
   = [(''Amazon EC2'', 120), (''Amazon RDS'', 60), (''Tax'', 50), (''Support'', 50),
      (''Amazon S3'', 30), (''Amazon DynamoDB'', 10), (''AWS Lambda'', 5 :: rat)]"
  by (simp add: sort_services_def)

section \<open>The cost claims\<close>

text \<open>
  Claim C3, with the arithmetic of the code. When the cost query answers and some group
  costs more than 0.01, the recorded entries are exactly the groups whose float cost
  exceeds the float 0.01, in query order, and the total is their sum in float arithmetic,
  taken from left to right. The ranking is by descending cost, a rearrangement of the
  recorded entries that keeps the query order among equal costs. The section prints the
  total, one row for each of the first ten ranked entries, and the suggestions. The
  percentage of a row is cost / total * 100 and its bar length is the floor of
  cost / total * 30, each division and multiplication rounded to the nearest double. The
  exact shares of the printed rows in the exact sum of the recorded costs add up to at
  most 100.
\<close>

theorem cost_section:
  assumes q: "get_cost_and_usage env = Inr response"
    and s: "services = fst (collect_results response ([], 0))"
    and t: "total_cost = snd (collect_results response ([], 0))"
    and r: "ranked = sort_services services"
    and ne: "services \<noteq> []"
  shows "services = map (\<lambda>g. (Key0 g, py_float (Amount g)))
                      (filter (\<lambda>g. py_float (Amount g) > py_float (1 / 100))
                         (concat (map Groups response)))
         \<and> total_cost = foldl fadd 0 (map snd services)
         \<and> sorted_wrt (\<lambda>a b. snd a \<ge> snd b) ranked
         \<and> mset ranked = mset services
         \<and> (\<forall>k. filter (\<lambda>e. snd e = k) ranked = filter (\<lambda>e. snd e = k) services)
         \<and> check_cost_by_service env =
             ([Rule, SectionTitle 2, Rule, TotalCostLine total_cost]
              @ map (cost_row total_cost) (take 10 ranked)
              @ [SuggestionHeader]
              @ suggestion_lines (take 5 ranked)
              @ [Blank], Return ())
         \<and> (\<forall>e \<in> set (take 10 ranked).
               cost_row total_cost e =
                 CostRow (snd e) (fmul (fdiv (snd e) total_cost) 100)
                   \<lfloor>fmul (fdiv (snd e) total_cost) 30\<rfloor> (fst e))
         \<and> sum_list (map (\<lambda>e. snd e / sum_list (map snd services) * 100) (take 10 ranked))
               \<le> 100"
proof -
  have ne': "fst (collect_results response ([], 0)) \<noteq> []"
    using s ne by simp
  have recorded: "services = map (\<lambda>g. (Key0 g, py_float (Amount g)))
                      (filter (\<lambda>g. py_float (Amount g) > py_float (1 / 100))
                         (concat (map Groups response)))"
    by (simp add: s collect_results_eq)
  have total: "total_cost = foldl fadd 0 (map snd services)"
    by (simp only: s t collected_total py_sum_def)
  have order: "sorted_wrt (\<lambda>a b. snd a \<ge> snd b) ranked"
    by (simp only: r sorted_sort_services)
  have perm: "mset ranked = mset services"
    by (simp only: r mset_sort_services)
  have stable: "\<forall>k. filter (\<lambda>e. snd e = k) ranked = filter (\<lambda>e. snd e = k) services"
    by (simp only: r stable_sort_services simp_thms)
  have out: "check_cost_by_service env =
             ([Rule, SectionTitle 2, Rule, TotalCostLine total_cost]
              @ map (cost_row total_cost) (take 10 ranked)
              @ [SuggestionHeader]
              @ suggestion_lines (take 5 ranked)
              @ [Blank], Return ())"
    by (simp add: cost_Inr [OF q] cost_report_nonempty [OF ne'] s t r prepend_def)
  have tpos: "0 < total_cost"
    using total_positive [OF ne'] t by simp
  have rows: "\<forall>e \<in> set (take 10 ranked).
               cost_row total_cost e =
                 CostRow (snd e) (fmul (fdiv (snd e) total_cost) 100)
                   \<lfloor>fmul (fdiv (snd e) total_cost) 30\<rfloor> (fst e)"
  proof
    fix e assume "e \<in> set (take 10 ranked)"
    then have "e \<in> set services"
      using r by (auto dest: in_set_takeD simp: set_sort_services)
    then have "0 \<le> snd e"
      using collected_pos [of e response] s by simp
    with tpos show "cost_row total_cost e =
                 CostRow (snd e) (fmul (fdiv (snd e) total_cost) 100)
                   \<lfloor>fmul (fdiv (snd e) total_cost) 30\<rfloor> (fst e)"
      by (rule cost_row_eq)
  qed
  have shares: "sum_list (map (\<lambda>e. snd e / sum_list (map snd services) * 100) (take 10 ranked))
                  \<le> 100"
    using exact_shares_le_100 [OF ne'] s r by simp
  from recorded total order perm stable out rows shares show ?thesis
    by (simp only: simp_thms)
qed

theorem cost_section_witness:
  "get_cost_and_usage scenario = Inr cost_response
   \<and> fst (collect_results cost_response ([], 0)) \<noteq> []
   \<and> check_cost_by_service scenario =
       ([Rule, SectionTitle 2, Rule, TotalCostLine 150,
         CostRow 120 80 24 ''Amazon EC2'', CostRow 30 20 6 ''Amazon S3'',
         SuggestionHeader, Suggestion EC2, Suggestion S3, Blank], Return ())"
proof -
  have q: "get_cost_and_usage scenario = Inr cost_response"
    by (simp add: scenario_def)
  note c = scenario_collected
  note body = scenario_rows
  have ne: "fst (collect_results cost_response ([], 0)) \<noteq> []"
    by (simp add: c)
  note t = cost_section [OF q refl refl refl ne]
  from t have "check_cost_by_service scenario =
       ([Rule, SectionTitle 2, Rule, TotalCostLine 150]
        @ map (cost_row 150) (take 10 (sort_services [(''Amazon EC2'', 120), (''Amazon S3'', 30)]))
        @ [SuggestionHeader]
        @ suggestion_lines (take 5 (sort_services [(''Amazon EC2'', 120), (''Amazon S3'', 30)]))
        @ [Blank], Return ())"
    by (simp only: c fst_conv snd_conv)
  with body have "check_cost_by_service scenario =
       ([Rule, SectionTitle 2, Rule, TotalCostLine 150,
         CostRow 120 80 24 ''Amazon EC2'', CostRow 30 20 6 ''Amazon S3'',
         SuggestionHeader, Suggestion EC2, Suggestion S3, Blank], Return ())"
    by simp
  with q ne show ?thesis
    by (simp only: simp_thms)
qed

text \<open>
  Claim C3 read with exact quotients fails: for the amounts 6.15 and 4.10 the
  printed percentages are 60 + 2^-47 and 40, which add up to more than 100, and the bar
  of the second row has 11 units where the exact value of cost / total * 30 is 12.
\<close>

theorem rounded_shares_counterexample:
  "get_cost_and_usage rounding_account = Inr rounding_response
   \<and> check_cost_by_service rounding_account =
       ([Rule, SectionTitle 2, Rule, TotalCostLine (41 / 4),
         CostRow (py_float (615 / 100)) (60 + 1 / 2 ^ 47) 18 ''Amazon EC2'',
         CostRow (py_float (41 / 10)) 40 11 ''Amazon S3'',
         SuggestionHeader, Suggestion EC2, Suggestion S3, Blank], Return ())
   \<and> (100 :: rat) < (60 + 1 / 2 ^ 47) + 40
   \<and> \<lfloor>(41 / 10) / (615 / 100 + 41 / 10) * (30 :: rat)\<rfloor> = 12"
proof -
  have q: "get_cost_and_usage rounding_account = Inr rounding_response"
    by (simp add: rounding_account_def)
  have ne: "fst (collect_results rounding_response ([], 0)) \<noteq> []"
    by (simp add: rounding_collected)
  have body: "cost_report rounding_response =
       ([TotalCostLine (41 / 4),
         CostRow (py_float (615 / 100)) (60 + 1 / 2 ^ 47) 18 ''Amazon EC2'',
         CostRow (py_float (41 / 10)) 40 11 ''Amazon S3'',
         SuggestionHeader, Suggestion EC2, Suggestion S3, Blank], Return ())"
    by (simp only: cost_report_nonempty [OF ne] rounding_collected fst_conv snd_conv
                   rounding_sorted take_two list.map rounding_row_1 rounding_row_2
                   two_suggestions append_Cons append_Nil)
  have out: "check_cost_by_service rounding_account =
       ([Rule, SectionTitle 2, Rule, TotalCostLine (41 / 4),
         CostRow (py_float (615 / 100)) (60 + 1 / 2 ^ 47) 18 ''Amazon EC2'',
         CostRow (py_float (41 / 10)) 40 11 ''Amazon S3'',
         SuggestionHeader, Suggestion EC2, Suggestion S3, Blank], Return ())"
    by (simp only: cost_Inr [OF q] body prepend_pair append_Cons append_Nil)
  have sum: "(100 :: rat) < (60 + 1 / 2 ^ 47) + 40"
    by simp
  have bar: "\<lfloor>(41 / 10) / (615 / 100 + 41 / 10) * (30 :: rat)\<rfloor> = 12"
    by simp
  from q out sum bar show ?thesis
    by (simp only: simp_thms)
qed

text \<open>
  Claim C6. The suggestion lines of the cost section come from the first five entries of
  the ranking, in order. The ranking is the arrangement of the recorded entries by
  descending cost that keeps the query order among equal costs, so no entry after the
  fifth costs more than one of the first five. An entry gives at most one line: the one
  of the first rule, in the order EC2, RDS, S3, Lambda, DynamoDB, whose text occurs in
  the service name as a contiguous, case-sensitive substring; an entry whose name
  contains none of the five texts gives no line.
\<close>

theorem guidance_mapping:
  assumes q: "get_cost_and_usage env = Inr response"
    and ne: "fst (collect_results response ([], 0)) \<noteq> []"
  shows "check_cost_by_service env =
           ([Rule, SectionTitle 2, Rule, TotalCostLine (snd (collect_results response ([], 0)))]
            @ map (cost_row (snd (collect_results response ([], 0))))
                (take 10 (sort_services (fst (collect_results response ([], 0)))))
            @ [SuggestionHeader]
            @ suggestion_lines (take 5 (sort_services (fst (collect_results response ([], 0)))))
            @ [Blank], Return ())
         \<and> suggestion_lines es =
             concat (map (\<lambda>e. case suggestion_for (fst e) of None \<Rightarrow> [] | Some l \<Rightarrow> [l]) es)
         \<and> length (suggestion_lines es) \<le> length es
         \<and> suggestion_for name =
             map_option (\<lambda>r. Suggestion (snd r))
               (find (\<lambda>r. sublist (fst r) name)
                  [(''EC2'', EC2), (''RDS'', RDS), (''S3'', S3), (''Lambda'', Lambda),
                   (''DynamoDB'', DynamoDB)])
         \<and> (suggestion_for name = None \<longleftrightarrow>
              \<not> sublist ''EC2'' name \<and> \<not> sublist ''RDS'' name \<and> \<not> sublist ''S3'' name
              \<and> \<not> sublist ''Lambda'' name \<and> \<not> sublist ''DynamoDB'' name)
         \<and> fst (collect_results response ([], 0)) =
             map (\<lambda>g. (Key0 g, py_float (Amount g)))
               (filter (\<lambda>g. py_float (Amount g) > py_float (1 / 100))
                  (concat (map Groups response)))
         \<and> sorted_wrt (\<lambda>a b. snd a \<ge> snd b)
               (sort_services (fst (collect_results response ([], 0))))
         \<and> mset (sort_services (fst (collect_results response ([], 0))))
               = mset (fst (collect_results response ([], 0)))
         \<and> (\<forall>k. filter (\<lambda>e. snd e = k) (sort_services (fst (collect_results response ([], 0))))
                  = filter (\<lambda>e. snd e = k) (fst (collect_results response ([], 0))))
         \<and> (\<forall>e \<in> set (take 5 (sort_services (fst (collect_results response ([], 0))))).
               \<forall>e' \<in> set (drop 5 (sort_services (fst (collect_results response ([], 0))))).
                 snd e' \<le> snd e)"
proof -
  have out: "check_cost_by_service env =
           ([Rule, SectionTitle 2, Rule, TotalCostLine (snd (collect_results response ([], 0)))]
            @ map (cost_row (snd (collect_results response ([], 0))))
                (take 10 (sort_services (fst (collect_results response ([], 0)))))
            @ [SuggestionHeader]
            @ suggestion_lines (take 5 (sort_services (fst (collect_results response ([], 0)))))
            @ [Blank], Return ())"
    by (simp add: cost_Inr [OF q] cost_report_nonempty [OF ne] prepend_def)
  have each: "suggestion_lines es =
             concat (map (\<lambda>e. case suggestion_for (fst e) of None \<Rightarrow> [] | Some l \<Rightarrow> [l]) es)"
    by (induction es) (simp_all split: option.splits)
  have atmost: "length (suggestion_lines es) \<le> length es"
    by (induction es) (simp_all split: option.splits)
  have first: "suggestion_for name =
             map_option (\<lambda>r. Suggestion (snd r))
               (find (\<lambda>r. sublist (fst r) name)
                  [(''EC2'', EC2), (''RDS'', RDS), (''S3'', S3), (''Lambda'', Lambda),
                   (''DynamoDB'', DynamoDB)])"
    by (simp add: suggestion_for_def py_in_sublist)
  have none: "suggestion_for name = None \<longleftrightarrow>
              \<not> sublist ''EC2'' name \<and> \<not> sublist ''RDS'' name \<and> \<not> sublist ''S3'' name
              \<and> \<not> sublist ''Lambda'' name \<and> \<not> sublist ''DynamoDB'' name"
    by (simp add: suggestion_for_def py_in_sublist)
  have recorded: "fst (collect_results response ([], 0)) =
             map (\<lambda>g. (Key0 g, py_float (Amount g)))
               (filter (\<lambda>g. py_float (Amount g) > py_float (1 / 100))
                  (concat (map Groups response)))"
    by (simp add: collect_results_eq)
  have top: "\<forall>e \<in> set (take 5 (sort_services (fst (collect_results response ([], 0))))).
               \<forall>e' \<in> set (drop 5 (sort_services (fst (collect_results response ([], 0))))).
                 snd e' \<le> snd e"
    by (rule top_of_sorted) (rule sorted_sort_services)
  have stable: "\<forall>k. filter (\<lambda>e. snd e = k) (sort_services (fst (collect_results response ([], 0))))
                  = filter (\<lambda>e. snd e = k) (fst (collect_results response ([], 0)))"
    by (simp only: stable_sort_services simp_thms)
  from out each atmost first none recorded sorted_sort_services mset_sort_services stable top
  show ?thesis
    by (simp only: simp_thms)
qed

theorem guidance_mapping_witness:
  "get_cost_and_usage busy_account = Inr busy_response
   \<and> fst (collect_results busy_response ([], 0)) \<noteq> []
   \<and> take 5 (sort_services (fst (collect_results busy_response ([], 0))))
       = [(''Amazon EC2'', 120), (''Amazon RDS'', 60), (''Tax'', 50), (''Support'', 50),
          (''Amazon S3'', 30)]
   \<and> drop 5 (sort_services (fst (collect_results busy_response ([], 0))))
       = [(''Amazon DynamoDB'', 10), (''AWS Lambda'', 5)]
   \<and> suggestion_lines (take 5 (sort_services (fst (collect_results busy_response ([], 0)))))
       = [Suggestion EC2, Suggestion RDS, Suggestion S3]
   \<and> suggestion_for ''Amazon ec2'' = None"
proof -
  have q: "get_cost_and_usage busy_account = Inr busy_response"
    by (simp add: busy_account_def)
  have ne: "fst (collect_results busy_response ([], 0)) \<noteq> []"
    by (simp add: busy_collected)
  have top: "take 5 (sort_services (fst (collect_results busy_response ([], 0))))
       = [(''Amazon EC2'', 120), (''Amazon RDS'', 60), (''Tax'', 50), (''Support'', 50),
          (''Amazon S3'', 30)]"
    by (simp add: busy_collected busy_sorted)
  have rest: "drop 5 (sort_services (fst (collect_results busy_response ([], 0))))
       = [(''Amazon DynamoDB'', 10), (''AWS Lambda'', 5)]"
    by (simp add: busy_collected busy_sorted)
  note t = guidance_mapping [OF q ne,
             of "take 5 (sort_services (fst (collect_results busy_response ([], 0))))"
                "''Amazon ec2''"]
  from t [THEN conjunct2, THEN conjunct1]
  have lines: "suggestion_lines (take 5 (sort_services (fst (collect_results busy_response ([], 0)))))
       = [Suggestion EC2, Suggestion RDS, Suggestion S3]"
    by (simp add: top suggestion_for_def)
  from t [THEN conjunct2, THEN conjunct2, THEN conjunct2, THEN conjunct2, THEN conjunct1]
  have none: "suggestion_for ''Amazon ec2'' = None"
    by (simp add: sublist_code)
  from q ne top rest lines none show ?thesis
    by (simp only: simp_thms)
qed

section \<open>The claims on degradation and exit\<close>

text \<open>
  Claim C4. When the metric query of an instance raises a ClientError, the loop prints
  the insufficient-permission notice for the codes AccessDeniedException and AccessDenied
  and a generic notice with the code otherwise, then the row of the instance with no
  utilization data and no low-utilization flag, and goes on with the remaining instances
  after the rows already printed. The cost and optimizer phases do not read the metric
  answers. When the later queries are not fatal, the run prints the rows of all
  instances and the summary, then the cost section (or the notice that it was skipped),
  the optimizer section, the checklist and the footer, and returns.
\<close>

theorem metrics_client_error_degrades:
  assumes m: "get_metric_statistics env (InstanceId inst) = Inl (ClientError code msg)"
    and pre: "process_instances env before st = (la, Return sta)"
  shows "process_instances env (before @ inst # rest) st =
           prepend
             (la @ [if code \<in> set [''AccessDeniedException'', ''AccessDenied'']
               then PermissionNotice else MetricFailureNotice code,
               InstanceLine (InstanceId inst) (InstanceType inst)
                 (if is_arm inst then ARM_Graviton else X86),
               NameLine (if name_tag_of (Tags inst) = [] then None
                         else Some (name_tag_of (Tags inst))),
               CpuLine None, Blank])
             (process_instances env rest (tally inst sta))
         \<and> low_utilization (tally inst sta) = low_utilization sta
         \<and> \<not> fatal (get_metric_statistics env (InstanceId inst))
         \<and> cost_phase a (env\<lparr>get_metric_statistics := q\<rparr>) = cost_phase a env
         \<and> check_compute_optimizer (env\<lparr>get_metric_statistics := q\<rparr>)
             = check_compute_optimizer env
         \<and> (st = initial_state
              \<and> describe_instances env = Inr response
              \<and> concat (map Instances response) = before @ inst # rest
              \<and> process_instances env rest (tally inst sta) = (lb, Return stb)
              \<and> open_session env (truthy (profile a)) (truthy (region a)) = Inr ident
              \<and> (skip_cost a \<or> \<not> fatal (get_cost_and_usage env))
              \<and> \<not> fatal (get_recommendation_summaries env) \<longrightarrow>
            main (Parsed a) env =
              ([Blank, HeaderLine 0, HeaderLine 1, HeaderLine 2, HeaderLine 3, Blank,
         HeaderLine 4, HeaderLine 5, Blank]
               @ [AuthAccount (Account ident), AuthArn (Arn ident),
           AuthRegion (region_name ident), Blank]
               @ [Rule, SectionTitle 1, Rule,
                  RunningCount (int (length (before @ inst # rest)))]
               @ la
               @ [if code \<in> set [''AccessDeniedException'', ''AccessDenied'']
               then PermissionNotice else MetricFailureNotice code,
               InstanceLine (InstanceId inst) (InstanceType inst)
                 (if is_arm inst then ARM_Graviton else X86),
               NameLine (if name_tag_of (Tags inst) = [] then None
                         else Some (name_tag_of (Tags inst))),
               CpuLine None, Blank]
               @ lb
               @ summary_lines stb
               @ (if skip_cost a then [CostSkipped, Blank]
            else [Rule, SectionTitle 2, Rule]
                 @ (case get_cost_and_usage env of
                    Inr rs \<Rightarrow>
                      (if fst (collect_results rs ([], 0)) = [] then [NoCostIncurred, Blank]
                       else [TotalCostLine (snd (collect_results rs ([], 0)))]
                            @ map (cost_row (snd (collect_results rs ([], 0))))
                                (take 10 (sort_services (fst (collect_results rs ([], 0)))))
                            @ [SuggestionHeader]
                            @ suggestion_lines
                                (take 5 (sort_services (fst (collect_results rs ([], 0)))))
                            @ [Blank])
                  | Inl e \<Rightarrow>
                      (case e of
                         ClientError c m \<Rightarrow>
                           [CostQueryFailed m, CostExplorerNote, Blank]
                       | _ \<Rightarrow> [])))
               @ [Rule, SectionTitle 3, Rule]
         @ (case get_recommendation_summaries env of
              Inr ss \<Rightarrow>
                (if ss = [] then [OptimizerNoData, OptInHowTo, Blank]
                 else render_summaries ss @ [Blank])
            | Inl e \<Rightarrow>
                (case e of
                   ClientError c m \<Rightarrow>
                     (if c = ''OptInRequiredException''
                      then [OptimizerNotEnabled, OptInHowTo]
                      else [OptimizerQueryFailed m]) @ [Blank]
                 | _ \<Rightarrow> []))
               @ [Rule, SectionTitle 4, Rule,
           ChecklistCategory Compute, ChecklistItem Compute 0, ChecklistItem Compute 1,
           ChecklistItem Compute 2, ChecklistItem Compute 3, ChecklistItem Compute 4,
           ChecklistCategory Storage, ChecklistItem Storage 0, ChecklistItem Storage 1,
           ChecklistItem Storage 2,
           ChecklistCategory Database, ChecklistItem Database 0, ChecklistItem Database 1,
           ChecklistItem Database 2,
           ChecklistCategory Network, ChecklistItem Network 0, ChecklistItem Network 1,
           ChecklistItem Network 2,
           ChecklistCategory Monitoring, ChecklistItem Monitoring 0,
           ChecklistItem Monitoring 1, ChecklistItem Monitoring 2,
           Blank, FootprintToolHeader, FootprintToolHint 0, FootprintToolHint 1, Blank]
               @ [FooterLine 0, FooterLine 1, FooterLine 2, FooterLine 3, FooterLine 4,
           FooterLine 5, FooterLine 6, FooterLine 7, Blank], Return ()))"
proof -
  have loop: "process_instances env (before @ inst # rest) st =
           prepend
             (la @ [if code \<in> set [''AccessDeniedException'', ''AccessDenied'']
               then PermissionNotice else MetricFailureNotice code,
               InstanceLine (InstanceId inst) (InstanceType inst)
                 (if is_arm inst then ARM_Graviton else X86),
               NameLine (if name_tag_of (Tags inst) = [] then None
                         else Some (name_tag_of (Tags inst))),
               CpuLine None, Blank])
             (process_instances env rest (tally inst sta))"
    by (simp add: process_instances_append pre process_instance_ClientError [OF m]
                  run_simps prepend_prepend)
  have low: "low_utilization (tally inst sta) = low_utilization sta"
    by (simp add: tally_def)
  have nf: "\<not> fatal (get_metric_statistics env (InstanceId inst))"
    by (simp add: m fatal_def)
  have cost: "cost_phase a (env\<lparr>get_metric_statistics := q\<rparr>) = cost_phase a env"
    by (simp add: cost_phase_def check_cost_by_service_def)
  have opt: "check_compute_optimizer (env\<lparr>get_metric_statistics := q\<rparr>)
               = check_compute_optimizer env"
    by (simp add: check_compute_optimizer_def)
  have run: "main (Parsed a) env =
              ([Blank, HeaderLine 0, HeaderLine 1, HeaderLine 2, HeaderLine 3, Blank,
         HeaderLine 4, HeaderLine 5, Blank]
               @ [AuthAccount (Account ident), AuthArn (Arn ident),
           AuthRegion (region_name ident), Blank]
               @ [Rule, SectionTitle 1, Rule,
                  RunningCount (int (length (before @ inst # rest)))]
               @ la
               @ [if code \<in> set [''AccessDeniedException'', ''AccessDenied'']
               then PermissionNotice else MetricFailureNotice code,
               InstanceLine (InstanceId inst) (InstanceType inst)
                 (if is_arm inst then ARM_Graviton else X86),
               NameLine (if name_tag_of (Tags inst) = [] then None
                         else Some (name_tag_of (Tags inst))),
               CpuLine None, Blank]
               @ lb
               @ summary_lines stb
               @ (if skip_cost a then [CostSkipped, Blank]
            else [Rule, SectionTitle 2, Rule]
                 @ (case get_cost_and_usage env of
                    Inr rs \<Rightarrow>
                      (if fst (collect_results rs ([], 0)) = [] then [NoCostIncurred, Blank]
                       else [TotalCostLine (snd (collect_results rs ([], 0)))]
                            @ map (cost_row (snd (collect_results rs ([], 0))))
                                (take 10 (sort_services (fst (collect_results rs ([], 0)))))
                            @ [SuggestionHeader]
                            @ suggestion_lines
                                (take 5 (sort_services (fst (collect_results rs ([], 0)))))
                            @ [Blank])
                  | Inl e \<Rightarrow>
                      (case e of
                         ClientError c m \<Rightarrow>
                           [CostQueryFailed m, CostExplorerNote, Blank]
                       | _ \<Rightarrow> [])))
               @ [Rule, SectionTitle 3, Rule]
         @ (case get_recommendation_summaries env of
              Inr ss \<Rightarrow>
                (if ss = [] then [OptimizerNoData, OptInHowTo, Blank]
                 else render_summaries ss @ [Blank])
            | Inl e \<Rightarrow>
                (case e of
                   ClientError c m \<Rightarrow>
                     (if c = ''OptInRequiredException''
                      then [OptimizerNotEnabled, OptInHowTo]
                      else [OptimizerQueryFailed m]) @ [Blank]
                 | _ \<Rightarrow> []))
               @ [Rule, SectionTitle 4, Rule,
           ChecklistCategory Compute, ChecklistItem Compute 0, ChecklistItem Compute 1,
           ChecklistItem Compute 2, ChecklistItem Compute 3, ChecklistItem Compute 4,
           ChecklistCategory Storage, ChecklistItem Storage 0, ChecklistItem Storage 1,
           ChecklistItem Storage 2,
           ChecklistCategory Database, ChecklistItem Database 0, ChecklistItem Database 1,
           ChecklistItem Database 2,
           ChecklistCategory Network, ChecklistItem Network 0, ChecklistItem Network 1,
           ChecklistItem Network 2,
           ChecklistCategory Monitoring, ChecklistItem Monitoring 0,
           ChecklistItem Monitoring 1, ChecklistItem Monitoring 2,
           Blank, FootprintToolHeader, FootprintToolHint 0, FootprintToolHint 1, Blank]
               @ [FooterLine 0, FooterLine 1, FooterLine 2, FooterLine 3, FooterLine 4,
           FooterLine 5, FooterLine 6, FooterLine 7, Blank], Return ())"
    if i: "st = initial_state"
      and d: "describe_instances env = Inr response"
      and split: "concat (map Instances response) = before @ inst # rest"
      and post: "process_instances env rest (tally inst sta) = (lb, Return stb)"
      and s: "open_session env (truthy (profile a)) (truthy (region a)) = Inr ident"
      and c: "skip_cost a \<or> \<not> fatal (get_cost_and_usage env)"
      and o: "\<not> fatal (get_recommendation_summaries env)"
  proof -
    have whole: "process_instances env (concat (map Instances response)) initial_state =
           (la @ [if code \<in> set [''AccessDeniedException'', ''AccessDenied'']
               then PermissionNotice else MetricFailureNotice code,
               InstanceLine (InstanceId inst) (InstanceType inst)
                 (if is_arm inst then ARM_Graviton else X86),
               NameLine (if name_tag_of (Tags inst) = [] then None
                         else Some (name_tag_of (Tags inst))),
               CpuLine None, Blank] @ lb, Return stb)"
      using loop by (simp only: split i [symmetric] post prepend_pair append_assoc)
    have ne: "concat (map Instances response) \<noteq> []"
      by (simp add: split)
    have ec2: "check_ec2_utilization env =
           ([Rule, SectionTitle 1, Rule,
             RunningCount (int (length (concat (map Instances response))))]
            @ (la @ [if code \<in> set [''AccessDeniedException'', ''AccessDenied'']
               then PermissionNotice else MetricFailureNotice code,
               InstanceLine (InstanceId inst) (InstanceType inst)
                 (if is_arm inst then ARM_Graviton else X86),
               NameLine (if name_tag_of (Tags inst) = [] then None
                         else Some (name_tag_of (Tags inst))),
               CpuLine None, Blank] @ lb)
            @ summary_lines stb, Return ())"
      using d ne whole by (rule ec2_loop_returns)
    show ?thesis
      by (simp only: main_def parse_result.case report_session_ok [OF s] ec2 split
                     run_bind_Return after_ec2_lines [OF c o] prepend_pair append_assoc)
  qed
  from loop low nf cost opt run show ?thesis
    by blast
qed

theorem metrics_client_error_degrades_witness:
  "get_metric_statistics denied_account (InstanceId instance_2)
     = Inl (ClientError ''AccessDenied'' ''not authorized'')
   \<and> describe_instances denied_account
       = Inr [\<lparr>Instances = [instance_1, instance_2, instance_3]\<rparr>]
   \<and> snd (main (Parsed default_args) denied_account) = Return ()
   \<and> PermissionNotice \<in> set (fst (main (Parsed default_args) denied_account))
   \<and> SectionTitle 2 \<in> set (fst (main (Parsed default_args) denied_account))
   \<and> OptimizerNotEnabled \<in> set (fst (main (Parsed default_args) denied_account))
   \<and> FooterLine 7 \<in> set (fst (main (Parsed default_args) denied_account))"
proof -
  have m: "get_metric_statistics denied_account (InstanceId instance_2)
             = Inl (ClientError ''AccessDenied'' ''not authorized'')"
    by (simp add: denied_account_def instance_2_def)
  have "\<forall>i \<in> set [instance_1].
          \<not> fatal (get_metric_statistics denied_account (InstanceId i))"
    by (simp add: denied_account_def scenario_def instance_1_def fatal_def)
  from process_instances_returns [OF this, of initial_state] obtain la sta where
    pre: "process_instances denied_account [instance_1] initial_state = (la, Return sta)"
    by blast
  have "\<forall>i \<in> set [instance_3].
          \<not> fatal (get_metric_statistics denied_account (InstanceId i))"
    by (simp add: denied_account_def scenario_def instance_3_def fatal_def)
  from process_instances_returns [OF this, of "tally instance_2 sta"] obtain lb stb where
    post: "process_instances denied_account [instance_3] (tally instance_2 sta)
             = (lb, Return stb)"
    by blast
  have d: "describe_instances denied_account
             = Inr [\<lparr>Instances = [instance_1, instance_2, instance_3]\<rparr>]"
    by (simp add: denied_account_def scenario_def)
  have split: "concat (map Instances [\<lparr>Instances = [instance_1, instance_2, instance_3]\<rparr>])
                 = [instance_1] @ instance_2 # [instance_3]"
    by simp
  have s: "open_session denied_account (truthy (profile default_args))
             (truthy (region default_args))
           = Inr \<lparr>Account = ''123456789012'', Arn = ''arn:aws:iam::123456789012:user/dev'',
                  region_name = Some ''ap-northeast-2''\<rparr>"
    by (simp add: denied_account_def scenario_def)
  have c: "skip_cost default_args \<or> \<not> fatal (get_cost_and_usage denied_account)"
    by (simp add: denied_account_def scenario_def fatal_def)
  have o: "\<not> fatal (get_recommendation_summaries denied_account)"
    and oa: "get_recommendation_summaries denied_account
               = Inl (ClientError ''OptInRequiredException'' ''not opted in'')"
    by (simp_all add: denied_account_def scenario_def fatal_def)
  have ns: "\<not> skip_cost default_args"
    by (simp add: default_args_def)
  have hyps: "initial_state = initial_state
      \<and> describe_instances denied_account
          = Inr [\<lparr>Instances = [instance_1, instance_2, instance_3]\<rparr>]
      \<and> concat (map Instances [\<lparr>Instances = [instance_1, instance_2, instance_3]\<rparr>])
          = [instance_1] @ instance_2 # [instance_3]
      \<and> process_instances denied_account [instance_3] (tally instance_2 sta) = (lb, Return stb)
      \<and> open_session denied_account (truthy (profile default_args))
            (truthy (region default_args))
          = Inr \<lparr>Account = ''123456789012'', Arn = ''arn:aws:iam::123456789012:user/dev'',
                 region_name = Some ''ap-northeast-2''\<rparr>
      \<and> (skip_cost default_args \<or> \<not> fatal (get_cost_and_usage denied_account))
      \<and> \<not> fatal (get_recommendation_summaries denied_account)"
    using d split post s c o by (intro conjI) simp_all
  note t = metrics_client_error_degrades [OF m pre, where rest = "[instance_3]"]
  note run = t [THEN conjunct2, THEN conjunct2, THEN conjunct2, THEN conjunct2,
                THEN conjunct2, THEN mp, OF hyps]
  from run have "snd (main (Parsed default_args) denied_account) = Return ()"
    by simp
  moreover from run have "PermissionNotice \<in> set (fst (main (Parsed default_args) denied_account))"
    by simp
  moreover from run ns
  have "SectionTitle 2 \<in> set (fst (main (Parsed default_args) denied_account))"
    by simp
  moreover from run oa
  have "OptimizerNotEnabled \<in> set (fst (main (Parsed default_args) denied_account))"
    by simp
  moreover from run
  have "FooterLine 7 \<in> set (fst (main (Parsed default_args) denied_account))"
    by simp
  ultimately show ?thesis
    using m d by (simp only: simp_thms)
qed

text \<open>
  Claim C9. When the inventory lists no running instance, the utilization phase prints
  the no-instances line and its encouragement, no instance row, and returns; the run
  then prints the cost section, the optimizer section, the checklist and the footer.
  When no cost group exceeds 0.01, the cost phase prints the no-cost line and returns;
  the run then prints the optimizer section, the checklist and the footer.
\<close>

theorem empty_results_are_information:
  "(describe_instances env = Inr response \<and> concat (map Instances response) = [] \<longrightarrow>
      check_ec2_utilization env =
        ([Rule, SectionTitle 1, Rule, NoRunningInstances, ServerlessPraise, Blank], Return ())
      \<and> (open_session env (truthy (profile a)) (truthy (region a)) = Inr ident
           \<and> (skip_cost a \<or> \<not> fatal (get_cost_and_usage env))
           \<and> \<not> fatal (get_recommendation_summaries env) \<longrightarrow>
          main (Parsed a) env =
            ([Blank, HeaderLine 0, HeaderLine 1, HeaderLine 2, HeaderLine 3, Blank,
         HeaderLine 4, HeaderLine 5, Blank]
             @ [AuthAccount (Account ident), AuthArn (Arn ident),
           AuthRegion (region_name ident), Blank]
             @ [Rule, SectionTitle 1, Rule, NoRunningInstances, ServerlessPraise, Blank]
             @ (if skip_cost a then [CostSkipped, Blank]
            else [Rule, SectionTitle 2, Rule]
                 @ (case get_cost_and_usage env of
                    Inr rs \<Rightarrow>
                      (if fst (collect_results rs ([], 0)) = [] then [NoCostIncurred, Blank]
                       else [TotalCostLine (snd (collect_results rs ([], 0)))]
                            @ map (cost_row (snd (collect_results rs ([], 0))))
                                (take 10 (sort_services (fst (collect_results rs ([], 0)))))
                            @ [SuggestionHeader]
                            @ suggestion_lines
                                (take 5 (sort_services (fst (collect_results rs ([], 0)))))
                            @ [Blank])
                  | Inl e \<Rightarrow>
                      (case e of
                         ClientError c m \<Rightarrow>
                           [CostQueryFailed m, CostExplorerNote, Blank]
                       | _ \<Rightarrow> [])))
             @ [Rule, SectionTitle 3, Rule]
         @ (case get_recommendation_summaries env of
              Inr ss \<Rightarrow>
                (if ss = [] then [OptimizerNoData, OptInHowTo, Blank]
                 else render_summaries ss @ [Blank])
            | Inl e \<Rightarrow>
                (case e of
                   ClientError c m \<Rightarrow>
                     (if c = ''OptInRequiredException''
                      then [OptimizerNotEnabled, OptInHowTo]
                      else [OptimizerQueryFailed m]) @ [Blank]
                 | _ \<Rightarrow> []))
             @ [Rule, SectionTitle 4, Rule,
           ChecklistCategory Compute, ChecklistItem Compute 0, ChecklistItem Compute 1,
           ChecklistItem Compute 2, ChecklistItem Compute 3, ChecklistItem Compute 4,
           ChecklistCategory Storage, ChecklistItem Storage 0, ChecklistItem Storage 1,
           ChecklistItem Storage 2,
           ChecklistCategory Database, ChecklistItem Database 0, ChecklistItem Database 1,
           ChecklistItem Database 2,
           ChecklistCategory Network, ChecklistItem Network 0, ChecklistItem Network 1,
           ChecklistItem Network 2,
           ChecklistCategory Monitoring, ChecklistItem Monitoring 0,
           ChecklistItem Monitoring 1, ChecklistItem Monitoring 2,
           Blank, FootprintToolHeader, FootprintToolHint 0, FootprintToolHint 1, Blank]
             @ [FooterLine 0, FooterLine 1, FooterLine 2, FooterLine 3, FooterLine 4,
           FooterLine 5, FooterLine 6, FooterLine 7, Blank], Return ())))
   \<and> (get_cost_and_usage env = Inr rs
        \<and> (\<forall>r \<in> set rs. \<forall>g \<in> set (Groups r). \<not> py_float (Amount g) > py_float (1 / 100))
        \<longrightarrow>
      check_cost_by_service env =
        ([Rule, SectionTitle 2, Rule, NoCostIncurred, Blank], Return ())
      \<and> (open_session env (truthy (profile a)) (truthy (region a)) = Inr ident
           \<and> \<not> skip_cost a \<and> phase_queries_ok a env \<longrightarrow>
          main (Parsed a) env =
            ([Blank, HeaderLine 0, HeaderLine 1, HeaderLine 2, HeaderLine 3, Blank,
         HeaderLine 4, HeaderLine 5, Blank]
             @ [AuthAccount (Account ident), AuthArn (Arn ident),
           AuthRegion (region_name ident), Blank]
             @ fst (check_ec2_utilization env)
             @ [Rule, SectionTitle 2, Rule, NoCostIncurred, Blank]
             @ [Rule, SectionTitle 3, Rule]
         @ (case get_recommendation_summaries env of
              Inr ss \<Rightarrow>
                (if ss = [] then [OptimizerNoData, OptInHowTo, Blank]
                 else render_summaries ss @ [Blank])
            | Inl e \<Rightarrow>
                (case e of
                   ClientError c m \<Rightarrow>
                     (if c = ''OptInRequiredException''
                      then [OptimizerNotEnabled, OptInHowTo]
                      else [OptimizerQueryFailed m]) @ [Blank]
                 | _ \<Rightarrow> []))
             @ [Rule, SectionTitle 4, Rule,
           ChecklistCategory Compute, ChecklistItem Compute 0, ChecklistItem Compute 1,
           ChecklistItem Compute 2, ChecklistItem Compute 3, ChecklistItem Compute 4,
           ChecklistCategory Storage, ChecklistItem Storage 0, ChecklistItem Storage 1,
           ChecklistItem Storage 2,
           ChecklistCategory Database, ChecklistItem Database 0, ChecklistItem Database 1,
           ChecklistItem Database 2,
           ChecklistCategory Network, ChecklistItem Network 0, ChecklistItem Network 1,
           ChecklistItem Network 2,
           ChecklistCategory Monitoring, ChecklistItem Monitoring 0,
           ChecklistItem Monitoring 1, ChecklistItem Monitoring 2,
           Blank, FootprintToolHeader, FootprintToolHint 0, FootprintToolHint 1, Blank]
             @ [FooterLine 0, FooterLine 1, FooterLine 2, FooterLine 3, FooterLine 4,
           FooterLine 5, FooterLine 6, FooterLine 7, Blank], Return ())))"
proof -
  have ec2: "check_ec2_utilization env =
        ([Rule, SectionTitle 1, Rule, NoRunningInstances, ServerlessPraise, Blank], Return ())"
    if "describe_instances env = Inr response" "concat (map Instances response) = []"
    using that by (rule ec2_empty)
  have run1: "main (Parsed a) env =
            ([Blank, HeaderLine 0, HeaderLine 1, HeaderLine 2, HeaderLine 3, Blank,
         HeaderLine 4, HeaderLine 5, Blank]
             @ [AuthAccount (Account ident), AuthArn (Arn ident),
           AuthRegion (region_name ident), Blank]
             @ [Rule, SectionTitle 1, Rule, NoRunningInstances, ServerlessPraise, Blank]
             @ (if skip_cost a then [CostSkipped, Blank]
            else [Rule, SectionTitle 2, Rule]
                 @ (case get_cost_and_usage env of
                    Inr rs \<Rightarrow>
                      (if fst (collect_results rs ([], 0)) = [] then [NoCostIncurred, Blank]
                       else [TotalCostLine (snd (collect_results rs ([], 0)))]
                            @ map (cost_row (snd (collect_results rs ([], 0))))
                                (take 10 (sort_services (fst (collect_results rs ([], 0)))))
                            @ [SuggestionHeader]
                            @ suggestion_lines
                                (take 5 (sort_services (fst (collect_results rs ([], 0)))))
                            @ [Blank])
                  | Inl e \<Rightarrow>
                      (case e of
                         ClientError c m \<Rightarrow>
                           [CostQueryFailed m, CostExplorerNote, Blank]
                       | _ \<Rightarrow> [])))
             @ [Rule, SectionTitle 3, Rule]
         @ (case get_recommendation_summaries env of
              Inr ss \<Rightarrow>
                (if ss = [] then [OptimizerNoData, OptInHowTo, Blank]
                 else render_summaries ss @ [Blank])
            | Inl e \<Rightarrow>
                (case e of
                   ClientError c m \<Rightarrow>
                     (if c = ''OptInRequiredException''
                      then [OptimizerNotEnabled, OptInHowTo]
                      else [OptimizerQueryFailed m]) @ [Blank]
                 | _ \<Rightarrow> []))
             @ [Rule, SectionTitle 4, Rule,
           ChecklistCategory Compute, ChecklistItem Compute 0, ChecklistItem Compute 1,
           ChecklistItem Compute 2, ChecklistItem Compute 3, ChecklistItem Compute 4,
           ChecklistCategory Storage, ChecklistItem Storage 0, ChecklistItem Storage 1,
           ChecklistItem Storage 2,
           ChecklistCategory Database, ChecklistItem Database 0, ChecklistItem Database 1,
           ChecklistItem Database 2,
           ChecklistCategory Network, ChecklistItem Network 0, ChecklistItem Network 1,
           ChecklistItem Network 2,
           ChecklistCategory Monitoring, ChecklistItem Monitoring 0,
           ChecklistItem Monitoring 1, ChecklistItem Monitoring 2,
           Blank, FootprintToolHeader, FootprintToolHint 0, FootprintToolHint 1, Blank]
             @ [FooterLine 0, FooterLine 1, FooterLine 2, FooterLine 3, FooterLine 4,
           FooterLine 5, FooterLine 6, FooterLine 7, Blank], Return ())"
    if d: "describe_instances env = Inr response" "concat (map Instances response) = []"
      and s: "open_session env (truthy (profile a)) (truthy (region a)) = Inr ident"
      and c: "skip_cost a \<or> \<not> fatal (get_cost_and_usage env)"
      and o: "\<not> fatal (get_recommendation_summaries env)"
    by (simp only: main_def parse_result.case report_session_ok [OF s] ec2 [OF d]
                   run_bind_Return after_ec2_lines [OF c o] prepend_pair append_assoc)
  have empty: "fst (collect_results rs ([], 0)) = []"
    if "\<forall>r \<in> set rs. \<forall>g \<in> set (Groups r). \<not> py_float (Amount g) > py_float (1 / 100)"
  proof -
    have "filter (\<lambda>g. py_float (Amount g) > py_float (1 / 100)) (concat (map Groups rs)) = []"
      using that by (auto simp: filter_empty_conv)
    then show ?thesis
      by (simp add: collect_results_eq)
  qed
  have cost: "check_cost_by_service env =
        ([Rule, SectionTitle 2, Rule, NoCostIncurred, Blank], Return ())"
    if q: "get_cost_and_usage env = Inr rs"
      and small: "\<forall>r \<in> set rs. \<forall>g \<in> set (Groups r).
                    \<not> py_float (Amount g) > py_float (1 / 100)"
    by (simp add: cost_Inr [OF q] cost_report_empty [OF empty [OF small]] prepend_def)
  have run2: "main (Parsed a) env =
            ([Blank, HeaderLine 0, HeaderLine 1, HeaderLine 2, HeaderLine 3, Blank,
         HeaderLine 4, HeaderLine 5, Blank]
             @ [AuthAccount (Account ident), AuthArn (Arn ident),
           AuthRegion (region_name ident), Blank]
             @ fst (check_ec2_utilization env)
             @ [Rule, SectionTitle 2, Rule, NoCostIncurred, Blank]
             @ [Rule, SectionTitle 3, Rule]
         @ (case get_recommendation_summaries env of
              Inr ss \<Rightarrow>
                (if ss = [] then [OptimizerNoData, OptInHowTo, Blank]
                 else render_summaries ss @ [Blank])
            | Inl e \<Rightarrow>
                (case e of
                   ClientError c m \<Rightarrow>
                     (if c = ''OptInRequiredException''
                      then [OptimizerNotEnabled, OptInHowTo]
                      else [OptimizerQueryFailed m]) @ [Blank]
                 | _ \<Rightarrow> []))
             @ [Rule, SectionTitle 4, Rule,
           ChecklistCategory Compute, ChecklistItem Compute 0, ChecklistItem Compute 1,
           ChecklistItem Compute 2, ChecklistItem Compute 3, ChecklistItem Compute 4,
           ChecklistCategory Storage, ChecklistItem Storage 0, ChecklistItem Storage 1,
           ChecklistItem Storage 2,
           ChecklistCategory Database, ChecklistItem Database 0, ChecklistItem Database 1,
           ChecklistItem Database 2,
           ChecklistCategory Network, ChecklistItem Network 0, ChecklistItem Network 1,
           ChecklistItem Network 2,
           ChecklistCategory Monitoring, ChecklistItem Monitoring 0,
           ChecklistItem Monitoring 1, ChecklistItem Monitoring 2,
           Blank, FootprintToolHeader, FootprintToolHint 0, FootprintToolHint 1, Blank]
             @ [FooterLine 0, FooterLine 1, FooterLine 2, FooterLine 3, FooterLine 4,
           FooterLine 5, FooterLine 6, FooterLine 7, Blank], Return ())"
    if q: "get_cost_and_usage env = Inr rs"
      and small: "\<forall>r \<in> set rs. \<forall>g \<in> set (Groups r).
                    \<not> py_float (Amount g) > py_float (1 / 100)"
      and s: "open_session env (truthy (profile a)) (truthy (region a)) = Inr ident"
      and ns: "\<not> skip_cost a"
      and ok: "phase_queries_ok a env"
  proof -
    have body: "(if skip_cost a then [CostSkipped, Blank]
            else [Rule, SectionTitle 2, Rule]
                 @ (case get_cost_and_usage env of
                    Inr rs \<Rightarrow>
                      (if fst (collect_results rs ([], 0)) = [] then [NoCostIncurred, Blank]
                       else [TotalCostLine (snd (collect_results rs ([], 0)))]
                            @ map (cost_row (snd (collect_results rs ([], 0))))
                                (take 10 (sort_services (fst (collect_results rs ([], 0)))))
                            @ [SuggestionHeader]
                            @ suggestion_lines
                                (take 5 (sort_services (fst (collect_results rs ([], 0)))))
                            @ [Blank])
                  | Inl e \<Rightarrow>
                      (case e of
                         ClientError c m \<Rightarrow>
                           [CostQueryFailed m, CostExplorerNote, Blank]
                       | _ \<Rightarrow> []))) = [Rule, SectionTitle 2, Rule, NoCostIncurred, Blank]"
      using ns by (simp add: q empty [OF small])
    show ?thesis
      using report_completes [OF s ok] by (simp only: main_def parse_result.case body)
  qed
  from ec2 run1 cost run2 show ?thesis
    by blast
qed

lemma quiet_small: "\<not> py_float (5 / 1000) > py_float (1 / 100)"
  by code_simp

theorem empty_results_are_information_witness:
  "describe_instances quiet_account = Inr []
   \<and> get_cost_and_usage quiet_account = Inr [\<lparr>Groups = [\<lparr>Key0 = ''Tax'', Amount = 5 / 1000\<rparr>]\<rparr>]
   \<and> phase_queries_ok default_args quiet_account
   \<and> main (Parsed default_args) quiet_account =
       ([Blank, HeaderLine 0, HeaderLine 1, HeaderLine 2, HeaderLine 3, Blank,
         HeaderLine 4, HeaderLine 5, Blank]
        @ [AuthAccount ''123456789012'', AuthArn ''arn:aws:iam::123456789012:user/dev'',
           AuthRegion (Some ''ap-northeast-2''), Blank]
        @ [Rule, SectionTitle 1, Rule, NoRunningInstances, ServerlessPraise, Blank]
        @ [Rule, SectionTitle 2, Rule, NoCostIncurred, Blank]
        @ [Rule, SectionTitle 3, Rule, OptimizerNotEnabled, OptInHowTo, Blank]
        @ [Rule, SectionTitle 4, Rule,
           ChecklistCategory Compute, ChecklistItem Compute 0, ChecklistItem Compute 1,
           ChecklistItem Compute 2, ChecklistItem Compute 3, ChecklistItem Compute 4,
           ChecklistCategory Storage, ChecklistItem Storage 0, ChecklistItem Storage 1,
           ChecklistItem Storage 2,
           ChecklistCategory Database, ChecklistItem Database 0, ChecklistItem Database 1,
           ChecklistItem Database 2,
           ChecklistCategory Network, ChecklistItem Network 0, ChecklistItem Network 1,
           ChecklistItem Network 2,
           ChecklistCategory Monitoring, ChecklistItem Monitoring 0,
           ChecklistItem Monitoring 1, ChecklistItem Monitoring 2,
           Blank, FootprintToolHeader, FootprintToolHint 0, FootprintToolHint 1, Blank]
        @ [FooterLine 0, FooterLine 1, FooterLine 2, FooterLine 3, FooterLine 4,
           FooterLine 5, FooterLine 6, FooterLine 7, Blank], Return ())"
proof -
  have d: "describe_instances quiet_account = Inr []"
    by (simp add: quiet_account_def)
  have c: "get_cost_and_usage quiet_account
             = Inr [\<lparr>Groups = [\<lparr>Key0 = ''Tax'', Amount = 5 / 1000\<rparr>]\<rparr>]"
    by (simp add: quiet_account_def)
  have small: "\<forall>r \<in> set [\<lparr>Groups = [\<lparr>Key0 = ''Tax'', Amount = 5 / 1000\<rparr>]\<rparr>].
                 \<forall>g \<in> set (Groups r). \<not> py_float (Amount g) > py_float (1 / 100)"
    using quiet_small by (simp del: divide_le_eq_numeral1 divide_less_eq_numeral1)
  have s: "open_session quiet_account (truthy (profile default_args))
             (truthy (region default_args))
           = Inr \<lparr>Account = ''123456789012'', Arn = ''arn:aws:iam::123456789012:user/dev'',
                  region_name = Some ''ap-northeast-2''\<rparr>"
    by (simp add: quiet_account_def scenario_def)
  have ns: "\<not> skip_cost default_args"
    by (simp add: default_args_def)
  have o: "get_recommendation_summaries quiet_account
             = Inl (ClientError ''OptInRequiredException'' ''not opted in'')"
    by (simp add: quiet_account_def scenario_def)
  have ok: "phase_queries_ok default_args quiet_account"
    by (simp add: phase_queries_ok_def running_instances_def d c o fatal_def)
  have e: "check_ec2_utilization quiet_account =
             ([Rule, SectionTitle 1, Rule, NoRunningInstances, ServerlessPraise, Blank], Return ())"
    using d by (rule ec2_empty) simp
  note t = empty_results_are_information
             [where env = quiet_account and response = "[]" and a = default_args
                and rs = "[\<lparr>Groups = [\<lparr>Key0 = ''Tax'', Amount = 5 / 1000\<rparr>]\<rparr>]"]
  from t [THEN conjunct2] c small s ns ok
  have "main (Parsed default_args) quiet_account =
       ([Blank, HeaderLine 0, HeaderLine 1, HeaderLine 2, HeaderLine 3, Blank,
         HeaderLine 4, HeaderLine 5, Blank]
        @ [AuthAccount ''123456789012'', AuthArn ''arn:aws:iam::123456789012:user/dev'',
           AuthRegion (Some ''ap-northeast-2''), Blank]
        @ fst (check_ec2_utilization quiet_account)
        @ [Rule, SectionTitle 2, Rule, NoCostIncurred, Blank]
        @ [Rule, SectionTitle 3, Rule, OptimizerNotEnabled, OptInHowTo, Blank]
        @ [Rule, SectionTitle 4, Rule,
           ChecklistCategory Compute, ChecklistItem Compute 0, ChecklistItem Compute 1,
           ChecklistItem Compute 2, ChecklistItem Compute 3, ChecklistItem Compute 4,
           ChecklistCategory Storage, ChecklistItem Storage 0, ChecklistItem Storage 1,
           ChecklistItem Storage 2,
           ChecklistCategory Database, ChecklistItem Database 0, ChecklistItem Database 1,
           ChecklistItem Database 2,
           ChecklistCategory Network, ChecklistItem Network 0, ChecklistItem Network 1,
           ChecklistItem Network 2,
           ChecklistCategory Monitoring, ChecklistItem Monitoring 0,
           ChecklistItem Monitoring 1, ChecklistItem Monitoring 2,
           Blank, FootprintToolHeader, FootprintToolHint 0, FootprintToolHint 1, Blank]
        @ [FooterLine 0, FooterLine 1, FooterLine 2, FooterLine 3, FooterLine 4,
           FooterLine 5, FooterLine 6, FooterLine 7, Blank], Return ())"
    by (simp add: o)
  then have "main (Parsed default_args) quiet_account =
       ([Blank, HeaderLine 0, HeaderLine 1, HeaderLine 2, HeaderLine 3, Blank,
         HeaderLine 4, HeaderLine 5, Blank]
        @ [AuthAccount ''123456789012'', AuthArn ''arn:aws:iam::123456789012:user/dev'',
           AuthRegion (Some ''ap-northeast-2''), Blank]
        @ [Rule, SectionTitle 1, Rule, NoRunningInstances, ServerlessPraise, Blank]
        @ [Rule, SectionTitle 2, Rule, NoCostIncurred, Blank]
        @ [Rule, SectionTitle 3, Rule, OptimizerNotEnabled, OptInHowTo, Blank]
        @ [Rule, SectionTitle 4, Rule,
           ChecklistCategory Compute, ChecklistItem Compute 0, ChecklistItem Compute 1,
           ChecklistItem Compute 2, ChecklistItem Compute 3, ChecklistItem Compute 4,
           ChecklistCategory Storage, ChecklistItem Storage 0, ChecklistItem Storage 1,
           ChecklistItem Storage 2,
           ChecklistCategory Database, ChecklistItem Database 0, ChecklistItem Database 1,
           ChecklistItem Database 2,
           ChecklistCategory Network, ChecklistItem Network 0, ChecklistItem Network 1,
           ChecklistItem Network 2,
           ChecklistCategory Monitoring, ChecklistItem Monitoring 0,
           ChecklistItem Monitoring 1, ChecklistItem Monitoring 2,
           Blank, FootprintToolHeader, FootprintToolHint 0, FootprintToolHint 1, Blank]
        @ [FooterLine 0, FooterLine 1, FooterLine 2, FooterLine 3, FooterLine 4,
           FooterLine 5, FooterLine 6, FooterLine 7, Blank], Return ())"
    by (simp only: e fst_conv)
  with d c ok show ?thesis
    by (simp only: simp_thms)
qed

text \<open>
  Claim C5, with the exit condition as the code has it. The exit status is 1 when boto3
  cannot be imported and 2 when the command line does not parse; a request for help ends
  with status 0 before any report. Otherwise the status is 0 exactly when the session is
  acquired and no client construction or query of a phase raises an exception other than
  a ClientError, and 1 in every other case. In the first case the run prints every
  section through the checklist and the footer. A ClientError of the metric, inventory,
  cost or optimizer query is answered inside its phase by an inline notice; for the
  optimizer the code OptInRequiredException gives the not-enabled notice with the opt-in
  hint. Missing credentials and an unknown profile print their remedies and leave with
  status 1.
\<close>

theorem exit_status_policy:
  "exit_status (snd (script b parsed env)) =
     (if \<not> b then 1
      else (case parsed of
              Parsed a \<Rightarrow>
                (if \<not> isl (open_session env (truthy (profile a)) (truthy (region a)))
                    \<and> phase_queries_ok a env then 0 else 1)
            | HelpRequested \<Rightarrow> 0
            | UsageError \<Rightarrow> 2))
   \<and> (open_session env (truthy (profile a)) (truthy (region a)) = Inr ident
        \<and> phase_queries_ok a env \<longrightarrow>
      script True (Parsed a) env =
        ([Blank, HeaderLine 0, HeaderLine 1, HeaderLine 2, HeaderLine 3, Blank,
         HeaderLine 4, HeaderLine 5, Blank]
         @ [AuthAccount (Account ident), AuthArn (Arn ident),
           AuthRegion (region_name ident), Blank]
         @ fst (check_ec2_utilization env)
         @ (if skip_cost a then [CostSkipped, Blank]
            else [Rule, SectionTitle 2, Rule]
                 @ (case get_cost_and_usage env of
                    Inr rs \<Rightarrow>
                      (if fst (collect_results rs ([], 0)) = [] then [NoCostIncurred, Blank]
                       else [TotalCostLine (snd (collect_results rs ([], 0)))]
                            @ map (cost_row (snd (collect_results rs ([], 0))))
                                (take 10 (sort_services (fst (collect_results rs ([], 0)))))
                            @ [SuggestionHeader]
                            @ suggestion_lines
                                (take 5 (sort_services (fst (collect_results rs ([], 0)))))
                            @ [Blank])
                  | Inl e \<Rightarrow>
                      (case e of
                         ClientError c m \<Rightarrow>
                           [CostQueryFailed m, CostExplorerNote, Blank]
                       | _ \<Rightarrow> [])))
         @ [Rule, SectionTitle 3, Rule]
         @ (case get_recommendation_summaries env of
              Inr ss \<Rightarrow>
                (if ss = [] then [OptimizerNoData, OptInHowTo, Blank]
                 else render_summaries ss @ [Blank])
            | Inl e \<Rightarrow>
                (case e of
                   ClientError c m \<Rightarrow>
                     (if c = ''OptInRequiredException''
                      then [OptimizerNotEnabled, OptInHowTo]
                      else [OptimizerQueryFailed m]) @ [Blank]
                 | _ \<Rightarrow> []))
         @ [Rule, SectionTitle 4, Rule,
           ChecklistCategory Compute, ChecklistItem Compute 0, ChecklistItem Compute 1,
           ChecklistItem Compute 2, ChecklistItem Compute 3, ChecklistItem Compute 4,
           ChecklistCategory Storage, ChecklistItem Storage 0, ChecklistItem Storage 1,
           ChecklistItem Storage 2,
           ChecklistCategory Database, ChecklistItem Database 0, ChecklistItem Database 1,
           ChecklistItem Database 2,
           ChecklistCategory Network, ChecklistItem Network 0, ChecklistItem Network 1,
           ChecklistItem Network 2,
           ChecklistCategory Monitoring, ChecklistItem Monitoring 0,
           ChecklistItem Monitoring 1, ChecklistItem Monitoring 2,
           Blank, FootprintToolHeader, FootprintToolHint 0, FootprintToolHint 1, Blank]
         @ [FooterLine 0, FooterLine 1, FooterLine 2, FooterLine 3, FooterLine 4,
           FooterLine 5, FooterLine 6, FooterLine 7, Blank], Return ()))
   \<and> (get_metric_statistics env iid = Inl (ClientError code msg) \<longrightarrow>
      query_avg_cpu env iid =
        ([if code \<in> set [''AccessDeniedException'', ''AccessDenied'']
          then PermissionNotice else MetricFailureNotice code], Return None))
   \<and> (describe_instances env = Inl (ClientError code msg) \<longrightarrow>
      check_ec2_utilization env =
        ([Rule, SectionTitle 1, Rule, Ec2QueryFailed msg, Blank], Return ()))
   \<and> (get_cost_and_usage env = Inl (ClientError code msg) \<longrightarrow>
      check_cost_by_service env =
        ([Rule, SectionTitle 2, Rule, CostQueryFailed msg, CostExplorerNote, Blank],
         Return ()))
   \<and> (get_recommendation_summaries env = Inl (ClientError code msg) \<longrightarrow>
      check_compute_optimizer env =
        ([Rule, SectionTitle 3, Rule]
         @ (if code = ''OptInRequiredException'' then [OptimizerNotEnabled, OptInHowTo]
            else [OptimizerQueryFailed msg])
         @ [Blank], Return ()))
   \<and> (open_session env (truthy (profile a)) (truthy (region a)) = Inl NoCredentialsError
        \<longrightarrow>
      script True (Parsed a) env =
        ([Blank, HeaderLine 0, HeaderLine 1, HeaderLine 2, HeaderLine 3, Blank,
         HeaderLine 4, HeaderLine 5, Blank]
         @ [ErrNoCredentials, RemedyHeader, Remedy 1, Remedy 2, Remedy 3], SysExit 1))
   \<and> (open_session env (truthy (profile a)) (truthy (region a)) = Inl (ProfileNotFound msg)
        \<longrightarrow>
      script True (Parsed a) env =
        ([Blank, HeaderLine 0, HeaderLine 1, HeaderLine 2, HeaderLine 3, Blank,
         HeaderLine 4, HeaderLine 5, Blank]
         @ [ErrProfileNotFound msg, HintListProfiles], SysExit 1))"
proof -
  have status: "exit_status (snd (script b parsed env)) =
     (if \<not> b then 1
      else (case parsed of
              Parsed a \<Rightarrow>
                (if \<not> isl (open_session env (truthy (profile a)) (truthy (region a)))
                    \<and> phase_queries_ok a env then 0 else 1)
            | HelpRequested \<Rightarrow> 0
            | UsageError \<Rightarrow> 2))"
    by (simp add: script_def main_status)
  have full: "script True (Parsed a) env =
        ([Blank, HeaderLine 0, HeaderLine 1, HeaderLine 2, HeaderLine 3, Blank,
         HeaderLine 4, HeaderLine 5, Blank]
         @ [AuthAccount (Account ident), AuthArn (Arn ident),
           AuthRegion (region_name ident), Blank]
         @ fst (check_ec2_utilization env)
         @ (if skip_cost a then [CostSkipped, Blank]
            else [Rule, SectionTitle 2, Rule]
                 @ (case get_cost_and_usage env of
                    Inr rs \<Rightarrow>
                      (if fst (collect_results rs ([], 0)) = [] then [NoCostIncurred, Blank]
                       else [TotalCostLine (snd (collect_results rs ([], 0)))]
                            @ map (cost_row (snd (collect_results rs ([], 0))))
                                (take 10 (sort_services (fst (collect_results rs ([], 0)))))
                            @ [SuggestionHeader]
                            @ suggestion_lines
                                (take 5 (sort_services (fst (collect_results rs ([], 0)))))
                            @ [Blank])
                  | Inl e \<Rightarrow>
                      (case e of
                         ClientError c m \<Rightarrow>
                           [CostQueryFailed m, CostExplorerNote, Blank]
                       | _ \<Rightarrow> [])))
         @ [Rule, SectionTitle 3, Rule]
         @ (case get_recommendation_summaries env of
              Inr ss \<Rightarrow>
                (if ss = [] then [OptimizerNoData, OptInHowTo, Blank]
                 else render_summaries ss @ [Blank])
            | Inl e \<Rightarrow>
                (case e of
                   ClientError c m \<Rightarrow>
                     (if c = ''OptInRequiredException''
                      then [OptimizerNotEnabled, OptInHowTo]
                      else [OptimizerQueryFailed m]) @ [Blank]
                 | _ \<Rightarrow> []))
         @ [Rule, SectionTitle 4, Rule,
           ChecklistCategory Compute, ChecklistItem Compute 0, ChecklistItem Compute 1,
           ChecklistItem Compute 2, ChecklistItem Compute 3, ChecklistItem Compute 4,
           ChecklistCategory Storage, ChecklistItem Storage 0, ChecklistItem Storage 1,
           ChecklistItem Storage 2,
           ChecklistCategory Database, ChecklistItem Database 0, ChecklistItem Database 1,
           ChecklistItem Database 2,
           ChecklistCategory Network, ChecklistItem Network 0, ChecklistItem Network 1,
           ChecklistItem Network 2,
           ChecklistCategory Monitoring, ChecklistItem Monitoring 0,
           ChecklistItem Monitoring 1, ChecklistItem Monitoring 2,
           Blank, FootprintToolHeader, FootprintToolHint 0, FootprintToolHint 1, Blank]
         @ [FooterLine 0, FooterLine 1, FooterLine 2, FooterLine 3, FooterLine 4,
           FooterLine 5, FooterLine 6, FooterLine 7, Blank], Return ())"
    if s: "open_session env (truthy (profile a)) (truthy (region a)) = Inr ident"
      and ok: "phase_queries_ok a env"
    using report_completes [OF s ok]
    by (simp only: script_def main_def parse_result.case simp_thms if_False)
  have nocred: "script True (Parsed a) env =
        ([Blank, HeaderLine 0, HeaderLine 1, HeaderLine 2, HeaderLine 3, Blank,
         HeaderLine 4, HeaderLine 5, Blank]
         @ [ErrNoCredentials, RemedyHeader, Remedy 1, Remedy 2, Remedy 3], SysExit 1)"
    if "open_session env (truthy (profile a)) (truthy (region a)) = Inl NoCredentialsError"
    using that
    by (simp add: script_def main_def report_def create_session_def run_simps header_lines_def)
  have noprof: "script True (Parsed a) env =
        ([Blank, HeaderLine 0, HeaderLine 1, HeaderLine 2, HeaderLine 3, Blank,
         HeaderLine 4, HeaderLine 5, Blank]
         @ [ErrProfileNotFound msg, HintListProfiles], SysExit 1)"
    if "open_session env (truthy (profile a)) (truthy (region a)) = Inl (ProfileNotFound msg)"
    using that
    by (simp add: script_def main_def report_def create_session_def run_simps header_lines_def)
  from status full nocred noprof
       query_avg_cpu_ClientError [of env iid code msg]
       ec2_ClientError [of env code msg] cost_ClientError [of env code msg]
       optimizer_ClientError [of env code msg]
  show ?thesis
    by blast
qed

theorem exit_status_policy_witness:
  "\<not> isl (open_session scenario (truthy (profile default_args)) (truthy (region default_args)))
   \<and> phase_queries_ok default_args scenario
   \<and> exit_status (snd (script True (Parsed default_args) scenario)) = 0
   \<and> check_compute_optimizer scenario =
       ([Rule, SectionTitle 3, Rule, OptimizerNotEnabled, OptInHowTo, Blank], Return ())"
proof -
  have s: "\<not> isl (open_session scenario (truthy (profile default_args))
                    (truthy (region default_args)))"
    by (simp add: scenario_def)
  have ok: "phase_queries_ok default_args scenario"
    by (simp add: phase_queries_ok_def running_instances_def scenario_def default_args_def
                  fatal_def instance_1_def instance_2_def instance_3_def)
  have o: "get_recommendation_summaries scenario
             = Inl (ClientError ''OptInRequiredException'' ''not opted in'')"
    by (simp add: scenario_def)
  note t = exit_status_policy [where b = True and parsed = "Parsed default_args"
             and env = scenario and code = "''OptInRequiredException''"
             and msg = "''not opted in''"]
  from t [THEN conjunct1] s ok
  have status: "exit_status (snd (script True (Parsed default_args) scenario)) = 0"
    by simp
  from t [THEN conjunct2, THEN conjunct2, THEN conjunct2, THEN conjunct2, THEN conjunct2,
          THEN conjunct1] o
  have notice: "check_compute_optimizer scenario =
       ([Rule, SectionTitle 3, Rule, OptimizerNotEnabled, OptInHowTo, Blank], Return ())"
    by simp
  from s ok status notice show ?thesis
    by (simp only: simp_thms)
qed

text \<open>
  Claim C5 as the specification states it fails where a phase query raises an
  exception that is not a ClientError: with the session acquired and no running instance,
  a cost query that cannot reach its endpoint ends the run after the banner of the cost
  section, with status 1 and without checklist or footer.
\<close>

theorem uncaught_query_failure_counterexample:
  "\<not> isl (open_session offline_account (truthy (profile default_args))
            (truthy (region default_args)))
   \<and> get_cost_and_usage offline_account = Inl (OtherException ''EndpointConnectionError'')
   \<and> script True (Parsed default_args) offline_account =
       ([Blank, HeaderLine 0, HeaderLine 1, HeaderLine 2, HeaderLine 3, Blank,
         HeaderLine 4, HeaderLine 5, Blank]
        @ [AuthAccount ''123456789012'', AuthArn ''arn:aws:iam::123456789012:user/dev'',
           AuthRegion (Some ''ap-northeast-2''), Blank,
           Rule, SectionTitle 1, Rule, NoRunningInstances, ServerlessPraise, Blank,
           Rule, SectionTitle 2, Rule],
        Raise (OtherException ''EndpointConnectionError''))
   \<and> exit_status (snd (script True (Parsed default_args) offline_account)) = 1"
  by (simp add: script_def main_def report_def create_session_def check_ec2_utilization_def
                after_ec2_def cost_phase_def check_cost_by_service_def
                offline_account_def quiet_account_def scenario_def default_args_def
                truthy_def run_simps catch_client_error_def prepend_prepend header_lines_def)

lemma no_region_run:
  "script True (Parsed default_args) no_region_account =
     ([Blank, HeaderLine 0, HeaderLine 1, HeaderLine 2, HeaderLine 3, Blank,
         HeaderLine 4, HeaderLine 5, Blank]
      @ [AuthAccount ''123456789012'', AuthArn ''arn:aws:iam::123456789012:user/dev'',
         AuthRegion None, Blank, Rule, SectionTitle 1, Rule],
      Raise (OtherException ''NoRegionError''))
   \<and> exit_status (snd (script True (Parsed default_args) no_region_account)) = 1"
  by (simp add: script_def main_def report_def create_session_def check_ec2_utilization_def
                no_region_account_def scenario_def default_args_def
                truthy_def run_simps catch_client_error_def prepend_prepend header_lines_def)

end
